theory Spec2Isabelle
  imports Complex_Main "HOL-Library.AList"
begin

section \<open>Data model (models.py)\<close>

text \<open>
  Each table of \<^verbatim>\<open>models.py\<close> is a list of rows in insertion order; a row is a record
  of its columns. Integer primary keys are natural numbers. Columns of type Float are
  exact reals: rounding of binary floating point is not part of the model. The
  \<^verbatim>\<open>created_at\<close>/\<^verbatim>\<open>used_at\<close> columns of users, referral codes and referral uses are
  filled by a default and read by none of the operations below; they are left out.
  The \<^verbatim>\<open>invoices\<close> table is written by none of the operations below and is left out.
\<close>

record user =
  user_id :: nat
  email :: string
  full_name :: string
  hashed_password :: string
  user_is_active :: bool
  is_admin :: bool
  referred_by :: "string option"

datatype product_type = Grillz | Watch | Bracelet

datatype json = JNull | JNum real | JStr string

record order =
  order_id :: nat
  uuid :: string
  order_user_id :: nat
  product_type :: product_type
  material :: string
  teeth_selection :: "int list option"
  product_details :: "(string \<times> json) list"
  total_price :: real
  shipping_full_name :: string
  shipping_address :: string
  shipping_city :: string
  shipping_zip_code :: string
  stripe_payment_intent :: "string option"
  payment_status :: string
  created_at :: nat
  updated_at :: nat

record referral_code =
  rc_id :: nat
  code :: string
  rc_user_id :: nat

record referral_use =
  ru_id :: nat
  referral_code_id :: nat
  referred_user_id :: nat
  first_order_id :: "nat option"
  referrer_discount_used :: bool
  referee_discount_used :: bool
  is_active :: bool

record db =
  users :: "user list"
  orders :: "order list"
  referral_codes :: "referral_code list"
  referral_uses :: "referral_use list"

section \<open>Sessions, queries and exceptions\<close>

datatype exn =
  MultipleResultsFound | OperationalError | TypeError | AttributeError | StripeError
  | ValueError | SignatureVerificationError | MissingGreenlet

datatype failure = HTTPException nat string | Unhandled exn

text \<open>
  \<^verbatim>\<open>Result.scalar_one_or_none()\<close>: no row gives \<^verbatim>\<open>None\<close>, one row gives the row, more
  than one row raises \<^verbatim>\<open>MultipleResultsFound\<close>.
\<close>

fun scalar_one_or_none :: "'a list \<Rightarrow> exn + 'a option" where
  "scalar_one_or_none [] = Inr None"
| "scalar_one_or_none [x] = Inr (Some x)"
| "scalar_one_or_none (x # y # zs) = Inl MultipleResultsFound"

text \<open>
  An \<^verbatim>\<open>AsyncSession\<close> (database.py, \<^verbatim>\<open>get_db\<close>): \<open>committed\<close> is what the database
  holds, \<open>working\<close> is the session's view with its pending changes. Whether a
  \<^verbatim>\<open>db.commit()\<close> succeeds is decided by the environment and is an argument of every
  operation that commits. \<^verbatim>\<open>db.rollback()\<close> discards the pending changes and expires
  the objects the session has loaded: \<open>expired\<close> records that a rollback happened.
  Reading a column of an expired object needs a reload, which under asyncio raises
  \<^verbatim>\<open>MissingGreenlet\<close>. A commit expires nothing (\<^verbatim>\<open>expire_on_commit=False\<close>).
\<close>

record session =
  committed :: db
  working :: db
  expired :: bool

definition open_session :: "db \<Rightarrow> session" where
  "open_session d = \<lparr>committed = d, working = d, expired = False\<rparr>"

definition commit :: "bool \<Rightarrow> session \<Rightarrow> exn + session" where
  "commit ok s = (if ok then Inr (s\<lparr>committed := working s\<rparr>) else Inl OperationalError)"

definition rollback :: "session \<Rightarrow> session" where
  "rollback s = s\<lparr>working := committed s, expired := True\<rparr>"

text \<open>
  SQLite's rowid for a new row of a table with an integer primary key: one more than
  the largest key in the table, 1 for an empty table.
\<close>

definition next_rowid :: "nat list \<Rightarrow> nat" where
  "next_rowid ids = Suc (fold max ids 0)"

section \<open>Pricing configuration (routes/orders.py)\<close>

record material_config =
  price :: int
  name :: string
  description :: string

definition GRILLZ_PRICES :: "string \<Rightarrow> material_config option" where
  "GRILLZ_PRICES = map_of
     [(''gold'', \<lparr>price = 299, name = ''18K Gold'', description = ''Premium 18K gold finish''\<rparr>),
      (''silver'', \<lparr>price = 149, name = ''Silver'', description = ''Sterling silver finish''\<rparr>),
      (''diamond'', \<lparr>price = 999, name = ''Iced'', description = ''Premium diamond setting''\<rparr>)]"

text \<open>
  The request body \<^verbatim>\<open>OrderCreate\<close>. Its \<^verbatim>\<open>product_type\<close> pattern admits exactly the
  three product types. Values of the \<^verbatim>\<open>product_details\<close> dictionary are JSON
  numbers, strings or null; a dictionary is an association list in insertion order.
\<close>

record order_create =
  oc_product_type :: product_type
  oc_material :: string
  oc_teeth_selection :: "int list option"
  oc_product_details :: "(string \<times> json) list option"
  oc_shipping_full_name :: string
  oc_shipping_address :: string
  oc_shipping_city :: string
  oc_shipping_zip_code :: string
  use_referral_discount :: "bool option"

section \<open>Referral discount at order time (routes/orders.py)\<close>

definition set_referee_discount_used :: "nat \<Rightarrow> db \<Rightarrow> db" where
  "set_referee_discount_used rid d =
     d\<lparr>referral_uses :=
         map (\<lambda>r. if ru_id r = rid then r\<lparr>referee_discount_used := True\<rparr> else r)
           (referral_uses d)\<rparr>"

definition set_referrer_discount_used :: "nat \<Rightarrow> db \<Rightarrow> db" where
  "set_referrer_discount_used rid d =
     d\<lparr>referral_uses :=
         map (\<lambda>r. if ru_id r = rid then r\<lparr>referrer_discount_used := True\<rparr> else r)
           (referral_uses d)\<rparr>"

text \<open>
  The end of the \<^verbatim>\<open>try\<close> block of \<^verbatim>\<open>apply_referral_discount\<close>: \<^verbatim>\<open>await db.commit()\<close>,
  and on failure the \<^verbatim>\<open>except\<close> clause rolls back. The local variables keep their
  values either way.
\<close>

definition commit_or_rollback :: "bool \<Rightarrow> session \<Rightarrow> session" where
  "commit_or_rollback ok s = (case commit ok s of Inl e \<Rightarrow> rollback s | Inr s' \<Rightarrow> s')"

definition apply_referral_discount ::
  "bool \<Rightarrow> session \<Rightarrow> nat \<Rightarrow> real \<Rightarrow> (real \<times> string option) \<times> session" where
  "apply_referral_discount commit_ok s uid tot =
     (case scalar_one_or_none
             (filter (\<lambda>r. referred_user_id r = uid \<and> \<not> referee_discount_used r)
                (referral_uses (working s))) of
        Inl e \<Rightarrow> ((tot, None), rollback s)
      | Inr (Some referee_discount) \<Rightarrow>
          ((tot * 0.9, Some ''referee''),
           commit_or_rollback commit_ok
             (s\<lparr>working := set_referee_discount_used (ru_id referee_discount) (working s)\<rparr>))
      | Inr None \<Rightarrow>
          (case scalar_one_or_none
                  (filter (\<lambda>c. rc_user_id c = uid) (referral_codes (working s))) of
             Inl e \<Rightarrow> ((tot, None), rollback s)
           | Inr None \<Rightarrow> ((tot, None), commit_or_rollback commit_ok s)
           | Inr (Some rc) \<Rightarrow>
               (case scalar_one_or_none
                       (filter (\<lambda>r. referral_code_id r = rc_id rc \<and> \<not> referrer_discount_used r)
                          (referral_uses (working s))) of
                  Inl e \<Rightarrow> ((tot, None), rollback s)
                | Inr None \<Rightarrow> ((tot, None), commit_or_rollback commit_ok s)
                | Inr (Some referrer_discount) \<Rightarrow>
                    ((tot * 0.8, Some ''referrer''),
                     commit_or_rollback commit_ok
                       (s\<lparr>working :=
                            set_referrer_discount_used (ru_id referrer_discount) (working s)\<rparr>)))))"

section \<open>Discount preview (routes/referrals.py)\<close>

text \<open>
  \<^verbatim>\<open>check_available_discount\<close> reads only; a \<^verbatim>\<open>MultipleResultsFound\<close> of one of its
  queries is not caught by the handler.
\<close>

definition check_available_discount :: "db \<Rightarrow> nat \<Rightarrow> exn + (real \<times> string option)" where
  "check_available_discount d uid =
     (case scalar_one_or_none
             (filter (\<lambda>r. referred_user_id r = uid \<and> \<not> referee_discount_used r)
                (referral_uses d)) of
        Inl e \<Rightarrow> Inl e
      | Inr (Some referee_discount) \<Rightarrow> Inr (0.10, Some ''referee'')
      | Inr None \<Rightarrow>
          (case scalar_one_or_none (filter (\<lambda>c. rc_user_id c = uid) (referral_codes d)) of
             Inl e \<Rightarrow> Inl e
           | Inr None \<Rightarrow> Inr (0, None)
           | Inr (Some rc) \<Rightarrow>
               (case scalar_one_or_none
                       (filter (\<lambda>r. referral_code_id r = rc_id rc
                                    \<and> \<not> referrer_discount_used r \<and> is_active r)
                          (referral_uses d)) of
                  Inl e \<Rightarrow> Inl e
                | Inr None \<Rightarrow> Inr (0, None)
                | Inr (Some referrer_discount) \<Rightarrow> Inr (0.20, Some ''referrer''))))"

section \<open>Order creation (routes/orders.py)\<close>

text \<open>
  The block "Validate and calculate price" of \<^verbatim>\<open>create_order\<close>. A missing
  \<^verbatim>\<open>product_details\<close> makes \<^verbatim>\<open>.get\<close> raise \<^verbatim>\<open>AttributeError\<close>; a price that is not a
  number makes the comparison with 0 raise \<^verbatim>\<open>TypeError\<close>.
\<close>

definition calculate_price :: "order_create \<Rightarrow> failure + real" where
  "calculate_price order_data =
     (case oc_product_type order_data of
        Grillz \<Rightarrow>
          (case GRILLZ_PRICES (oc_material order_data) of
             None \<Rightarrow>
               Inl (HTTPException 400
                 (''Invalid material '' @ [CHR 0x27] @ oc_material order_data @ [CHR 0x27]
                    @ '' for grillz''))
           | Some material_config \<Rightarrow>
               (case oc_teeth_selection order_data of
                  None \<Rightarrow>
                    Inl (HTTPException 400 ''At least one tooth must be selected for grillz'')
                | Some ts \<Rightarrow>
                    if length ts = 0
                    then Inl (HTTPException 400 ''At least one tooth must be selected for grillz'')
                    else Inr (of_int (price material_config * int (length ts)))))
      | _ \<Rightarrow>
          (case oc_product_details order_data of
             None \<Rightarrow> Inl (Unhandled AttributeError)
           | Some pd \<Rightarrow>
               (case map_of pd ''price'' of
                  None \<Rightarrow> Inl (HTTPException 400 ''Invalid product price'')
                | Some (JNum product_price) \<Rightarrow>
                    if product_price \<le> 0 then Inl (HTTPException 400 ''Invalid product price'')
                    else Inr product_price
                | Some _ \<Rightarrow> Inl (Unhandled TypeError))))"

text \<open>
  What the environment decides during one \<^verbatim>\<open>create_order\<close> request: the clock, the
  generated UUID, the outcome of each \<^verbatim>\<open>db.commit()\<close> in program order, and the outcome
  of \<^verbatim>\<open>stripe.checkout.Session.create\<close> (the session's id and url, or an exception).
\<close>

record order_env =
  env_now :: nat
  env_uuid :: string
  discount_commit_ok :: bool
  order_commit_ok :: bool
  checkout_session :: "(string \<times> string) option"
  intent_commit_ok :: bool

record create_order_response =
  success :: bool
  order_uuid :: string
  resp_total_price :: real
  currency :: string
  client_secret :: "string option"
  payment_intent_id :: "string option"
  message :: string

definition new_order ::
  "order_env \<Rightarrow> order_create \<Rightarrow> nat \<Rightarrow> nat \<Rightarrow> (string \<times> json) list \<Rightarrow> string option \<Rightarrow> real
     \<Rightarrow> order" where
  "new_order env order_data oid uid pd discount_type tot =
     \<lparr>order_id = oid, uuid = env_uuid env, order_user_id = uid,
      product_type = oc_product_type order_data, material = oc_material order_data,
      teeth_selection = oc_teeth_selection order_data,
      product_details =
        AList.update ''discount_applied''
          (case discount_type of None \<Rightarrow> JNull | Some t \<Rightarrow> JStr t) pd,
      total_price = tot,
      shipping_full_name = oc_shipping_full_name order_data,
      shipping_address = oc_shipping_address order_data,
      shipping_city = oc_shipping_city order_data,
      shipping_zip_code = oc_shipping_zip_code order_data,
      stripe_payment_intent = None, payment_status = ''pending'',
      created_at = env_now env, updated_at = env_now env\<rparr>"

definition set_stripe_payment_intent :: "nat \<Rightarrow> string \<Rightarrow> nat \<Rightarrow> db \<Rightarrow> db" where
  "set_stripe_payment_intent oid sid now d =
     d\<lparr>orders :=
         map (\<lambda>row. if order_id row = oid
                   then row\<lparr>stripe_payment_intent := Some sid, updated_at := now\<rparr> else row)
           (orders d)\<rparr>"

text \<open>
  \<^verbatim>\<open>create_order\<close> for the authenticated \<open>current_user\<close>. The result is the response (or
  the failure the client sees) and the database after the request: when the request
  ends, \<^verbatim>\<open>get_db\<close> closes the session and what was not committed is gone. An exception
  that is not an \<^verbatim>\<open>HTTPException\<close> reaches the client as a status 500.
  \<open>current_user\<close> was loaded by \<^verbatim>\<open>get_current_user\<close> inside a session block that has
  closed, so it is detached: a rollback in \<^verbatim>\<open>apply_referral_discount\<close> does not expire
  it, and no other loaded object is read afterwards.
\<close>

definition create_order ::
  "order_env \<Rightarrow> order_create \<Rightarrow> user \<Rightarrow> db \<Rightarrow> (failure + create_order_response) \<times> db" where
  "create_order env order_data current_user d =
     (case calculate_price order_data of
        Inl f \<Rightarrow> (Inl f, d)
      | Inr base \<Rightarrow>
          (let ((tot, discount_type), s) =
                 (if use_referral_discount order_data = Some True
                  then apply_referral_discount (discount_commit_ok env) (open_session d)
                         (user_id current_user) base
                  else ((base, None), open_session d))
           in case oc_product_details order_data of
                None \<Rightarrow> (Inl (Unhandled TypeError), committed s)
              | Some pd \<Rightarrow>
                  (let oid = next_rowid (map order_id (orders (working s)));
                       order = new_order env order_data oid (user_id current_user) pd
                                 discount_type tot
                   in case commit (order_commit_ok env)
                             (s\<lparr>working := (working s)\<lparr>orders := orders (working s) @ [order]\<rparr>\<rparr>) of
                        Inl e \<Rightarrow> (Inl (Unhandled e), committed s)
                      | Inr s1 \<Rightarrow>
                          (case checkout_session env of
                             None \<Rightarrow> (Inl (Unhandled StripeError), committed s1)
                           | Some (cs_id, cs_url) \<Rightarrow>
                               (case commit (intent_commit_ok env)
                                       (s1\<lparr>working :=
                                             set_stripe_payment_intent oid cs_id (env_now env)
                                               (working s1)\<rparr>) of
                                  Inl e \<Rightarrow> (Inl (Unhandled e), committed s1)
                                | Inr s2 \<Rightarrow>
                                    (Inr \<lparr>success = True, order_uuid = uuid order,
                                          resp_total_price = total_price order,
                                          currency = ''USD'', client_secret = Some cs_url,
                                          payment_intent_id = Some cs_id,
                                          message = ''Order created successfully''\<rparr>,
                                     committed s2))))))"

section \<open>Payment reconciliation (routes/orders.py)\<close>

text \<open>
  A log record is its level and its message; an f-string is kept as the list of its
  literal pieces and interpolated values.
\<close>

datatype level = INFO | WARNING | ERROR

datatype piece = Txt string | Num nat | Exc exn

type_synonym log = "(level \<times> piece list) list"

definition set_active :: "nat \<Rightarrow> nat \<Rightarrow> db \<Rightarrow> db" where
  "set_active rid oid d =
     d\<lparr>referral_uses :=
         map (\<lambda>r. if ru_id r = rid then r\<lparr>is_active := True, first_order_id := Some oid\<rparr> else r)
           (referral_uses d)\<rparr>"

definition activation_error :: "exn \<Rightarrow> level \<times> piece list" where
  "activation_error e = (ERROR, [Txt ''Error activating referral bonus: '', Exc e])"

definition activate_referral_bonus :: "bool \<Rightarrow> session \<Rightarrow> nat \<Rightarrow> nat \<Rightarrow> session \<times> log" where
  "activate_referral_bonus commit_ok s uid oid =
     (case scalar_one_or_none (filter (\<lambda>u. user_id u = uid) (users (working s))) of
        Inl e \<Rightarrow> (rollback s, [activation_error e])
      | Inr None \<Rightarrow> (s, [])
      | Inr (Some usr) \<Rightarrow>
          (case referred_by usr of
             None \<Rightarrow> (s, [])
           | Some rb \<Rightarrow>
               if rb = [] then (s, [])
               else
                 (case scalar_one_or_none
                         (filter (\<lambda>c. code c = rb) (referral_codes (working s))) of
                    Inl e \<Rightarrow> (rollback s, [activation_error e])
                  | Inr None \<Rightarrow>
                      (s, [(WARNING, [Txt ''Referral code '', Txt rb, Txt '' not found''])])
                  | Inr (Some rc) \<Rightarrow>
                      (case scalar_one_or_none
                              (filter (\<lambda>r. referral_code_id r = rc_id rc
                                           \<and> referred_user_id r = uid)
                                 (referral_uses (working s))) of
                         Inl e \<Rightarrow> (rollback s, [activation_error e])
                       | Inr None \<Rightarrow>
                           (s, [(WARNING,
                                 [Txt ''Referral use record not found for user '', Num uid])])
                       | Inr (Some referral_use) \<Rightarrow>
                           if is_active referral_use
                           then (s, [(INFO,
                                      [Txt ''Referral bonus already activated for user '',
                                       Num uid])])
                           else
                             (let s' = s\<lparr>working :=
                                          set_active (ru_id referral_use) oid (working s)\<rparr>
                              in case commit commit_ok s' of
                                   Inl e \<Rightarrow> (rollback s', [activation_error e])
                                 | Inr s'' \<Rightarrow>
                                     (s'', [(INFO,
                                             [Txt ''Activated referral bonus for user '', Num uid,
                                              Txt '', referrer gets commission''])]))))))"

definition set_payment_status :: "nat \<Rightarrow> string \<Rightarrow> nat \<Rightarrow> db \<Rightarrow> db" where
  "set_payment_status oid st now d =
     d\<lparr>orders :=
         map (\<lambda>row. if order_id row = oid
                     then row\<lparr>payment_status := st, updated_at := now\<rparr> else row)
           (orders d)\<rparr>"

definition order_not_found :: "string \<Rightarrow> level \<times> piece list" where
  "order_not_found checkout_session_id =
     (ERROR, [Txt ''Order not found for checkout session: '', Txt checkout_session_id])"

text \<open>
  The handlers return the exception that leaves them (if any), the session and the log
  records they wrote. The last record of \<^verbatim>\<open>handle_successful_payment\<close> reads
  \<^verbatim>\<open>order.uuid\<close> after \<^verbatim>\<open>activate_referral_bonus\<close> returned: if that call rolled
  back, the order is expired and the read raises.
\<close>

definition handle_successful_payment ::
  "nat \<Rightarrow> bool \<Rightarrow> bool \<Rightarrow> session \<Rightarrow> string \<Rightarrow> exn option \<times> session \<times> log" where
  "handle_successful_payment now activate_commit_ok commit_ok s checkout_session_id =
     (case scalar_one_or_none
             (filter (\<lambda>row. stripe_payment_intent row = Some checkout_session_id)
                (orders (working s))) of
        Inl e \<Rightarrow> (Some e, s, [])
      | Inr None \<Rightarrow> (None, s, [order_not_found checkout_session_id])
      | Inr (Some ord) \<Rightarrow>
          if payment_status ord = ''paid''
          then (None, s,
                [(INFO, [Txt ''Order '', Txt (uuid ord), Txt '' already marked as paid''])])
          else
            (let s1 = s\<lparr>working := set_payment_status (order_id ord) ''paid'' now (working s)\<rparr>;
                 marked = (INFO, [Txt ''Order '', Txt (uuid ord), Txt '' marked as paid'']);
                 (s2, lg) = activate_referral_bonus activate_commit_ok s1
                              (order_user_id ord) (order_id ord)
             in case commit commit_ok s2 of
                  Inl e \<Rightarrow> (Some e, s2, marked # lg)
                | Inr s3 \<Rightarrow>
                    if expired s3 then (Some MissingGreenlet, s3, marked # lg)
                    else
                      (None, s3,
                       marked # lg @
                       [(INFO, [Txt ''Successfully processed payment for order '',
                                Txt (uuid ord)])])))"

definition handle_failed_payment ::
  "nat \<Rightarrow> bool \<Rightarrow> session \<Rightarrow> string \<Rightarrow> exn option \<times> session \<times> log" where
  "handle_failed_payment now commit_ok s checkout_session_id =
     (case scalar_one_or_none
             (filter (\<lambda>row. stripe_payment_intent row = Some checkout_session_id)
                (orders (working s))) of
        Inl e \<Rightarrow> (Some e, s, [])
      | Inr None \<Rightarrow> (None, s, [order_not_found checkout_session_id])
      | Inr (Some ord) \<Rightarrow>
          (let s1 = s\<lparr>working := set_payment_status (order_id ord) ''failed'' now (working s)\<rparr>
           in case commit commit_ok s1 of
                Inl e \<Rightarrow> (Some e, s1, [])
              | Inr s2 \<Rightarrow>
                  (None, s2,
                   [(INFO, [Txt ''Order '', Txt (uuid ord), Txt '' marked as failed''])])))"

text \<open>
  The webhook endpoint. \<open>secret\<close> is \<^verbatim>\<open>STRIPE_WEBHOOK_SECRET\<close>; the result of
  \<^verbatim>\<open>stripe.Webhook.construct_event\<close> on the raw body and the signature header is an
  input: the verified event (its type and the id of its session object) or one of the
  two exceptions the endpoint catches.
\<close>

record event =
  ev_type :: string
  ev_session_id :: string

datatype construct_event = Verified event | Raises exn

record webhook_env =
  wh_now :: nat
  activate_commit_ok :: bool
  handler_commit_ok :: bool

definition stripe_webhook ::
  "string option \<Rightarrow> construct_event \<Rightarrow> webhook_env \<Rightarrow> db
     \<Rightarrow> (failure + (string \<times> string) list) \<times> db \<times> log" where
  "stripe_webhook secret constructed env d =
     (if secret = None \<or> secret = Some []
      then (Inl (HTTPException 500 ''Webhook secret not configured''), d,
            [(ERROR, [Txt ''STRIPE_WEBHOOK_SECRET not configured''])])
      else
        (case constructed of
           Raises e \<Rightarrow>
             if e = ValueError
             then (Inl (HTTPException 400 ''Invalid payload''), d,
                   [(ERROR, [Txt ''Invalid payload: '', Exc e])])
             else if e = SignatureVerificationError
             then (Inl (HTTPException 400 ''Invalid signature''), d,
                   [(ERROR, [Txt ''Invalid signature: '', Exc e])])
             else (Inl (Unhandled e), d, [])
         | Verified ev \<Rightarrow>
             (let verified = (INFO, [Txt ''Verified Stripe webhook event: '', Txt (ev_type ev)]);
                  ok = Inr [(''status'', ''success'')]
              in if ev_type ev = ''checkout.session.completed''
                 then
                   (case handle_successful_payment (wh_now env) (activate_commit_ok env)
                           (handler_commit_ok env) (open_session d) (ev_session_id ev) of
                      (raised, s, lg) \<Rightarrow>
                        (ok, committed s,
                         [verified,
                          (INFO, [Txt ''Processing checkout session completed: '',
                                  Txt (ev_session_id ev)])] @ lg @
                         (case raised of
                            None \<Rightarrow> []
                          | Some e \<Rightarrow>
                              [(ERROR, [Txt ''Error processing successful payment: '',
                                        Exc e])])))
                 else if ev_type ev = ''checkout.session.expired''
                 then
                   (case handle_failed_payment (wh_now env) (handler_commit_ok env)
                           (open_session d) (ev_session_id ev) of
                      (raised, s, lg) \<Rightarrow>
                        (ok, committed s,
                         [verified,
                          (INFO, [Txt ''Processing checkout session expired: '',
                                  Txt (ev_session_id ev)])] @ lg @
                         (case raised of
                            None \<Rightarrow> []
                          | Some e \<Rightarrow>
                              [(ERROR, [Txt ''Error processing failed payment: '', Exc e])])))
                 else
                   (ok, d,
                    [verified, (INFO, [Txt ''Unhandled event type: '', Txt (ev_type ev)])]))))"

section \<open>Registration (routes/auth.py)\<close>

record user_create =
  uc_email :: string
  uc_password :: string
  uc_full_name :: string
  uc_referral_code :: "string option"

record user_response =
  ur_email :: string
  ur_full_name :: string
  ur_is_admin :: bool

text \<open>
  What the environment decides during one \<^verbatim>\<open>register\<close> request: the password hash
  function, the generated UUID and the outcome of the two commits.
\<close>

record register_env =
  get_password_hash :: "string \<Rightarrow> string"
  reg_uuid :: string
  user_commit_ok :: bool
  referral_commit_ok :: bool

definition register ::
  "register_env \<Rightarrow> user_create \<Rightarrow> db \<Rightarrow> (failure + user_response) \<times> db" where
  "register env user_data d =
     (case scalar_one_or_none (filter (\<lambda>u. email u = uc_email user_data) (users d)) of
        Inl e \<Rightarrow> (Inl (Unhandled e), d)
      | Inr (Some existing) \<Rightarrow> (Inl (HTTPException 400 ''Email already registered''), d)
      | Inr None \<Rightarrow>
          (case (case uc_referral_code user_data of
                   None \<Rightarrow> Inr None
                 | Some c \<Rightarrow>
                     if c = [] then Inr None
                     else
                       (case scalar_one_or_none
                               (filter (\<lambda>rc. code rc = c) (referral_codes d)) of
                          Inl e \<Rightarrow> Inl (Unhandled e)
                        | Inr None \<Rightarrow> Inl (HTTPException 400 ''Invalid referral code'')
                        | Inr (Some rc) \<Rightarrow> Inr (Some rc))) of
             Inl f \<Rightarrow> (Inl f, d)
           | Inr referral_code \<Rightarrow>
               (let usr = \<lparr>user_id = next_rowid (map user_id (users d)),
                          email = uc_email user_data,
                          full_name = uc_full_name user_data,
                          hashed_password = get_password_hash env (uc_password user_data),
                          user_is_active = True, is_admin = False,
                          referred_by = uc_referral_code user_data\<rparr>
                in case commit (user_commit_ok env)
                          ((open_session d)\<lparr>working := d\<lparr>users := users d @ [usr]\<rparr>\<rparr>) of
                     Inl e \<Rightarrow> (Inl (Unhandled e), d)
                   | Inr s1 \<Rightarrow>
                       (let w = working s1;
                            new_referral =
                              \<lparr>rc_id = next_rowid (map rc_id (referral_codes w)),
                               code = take 8 (reg_uuid env), rc_user_id = user_id usr\<rparr>;
                            w1 = w\<lparr>referral_codes := referral_codes w @ [new_referral]\<rparr>;
                            w2 = (case referral_code of
                                    None \<Rightarrow> w1
                                  | Some rc \<Rightarrow>
                                      w1\<lparr>referral_uses := referral_uses w1 @
                                           [\<lparr>ru_id = next_rowid (map ru_id (referral_uses w1)),
                                             referral_code_id = rc_id rc,
                                             referred_user_id = user_id usr,
                                             first_order_id = None,
                                             referrer_discount_used = False,
                                             referee_discount_used = False,
                                             is_active = False\<rparr>]\<rparr>)
                        in case commit (referral_commit_ok env) (s1\<lparr>working := w2\<rparr>) of
                             Inl e \<Rightarrow> (Inl (Unhandled e), committed s1)
                           | Inr s2 \<Rightarrow>
                               (Inr \<lparr>ur_email = email usr, ur_full_name = full_name usr,
                                     ur_is_admin = is_admin usr\<rparr>,
                                committed s2)))))"

section \<open>Example states\<close>

text \<open>
  A small shop: Alice owns the referral code \<^verbatim>\<open>ABC12345\<close>; Bob registered with it and
  has not paid an order yet, so the referral use is inactive and both discount flags
  are unused.
\<close>

definition alice :: user where
  "alice = \<lparr>user_id = 1, email = ''alice@example.com'', full_name = ''Alice'',
     hashed_password = ''h1'', user_is_active = True, is_admin = False, referred_by = None\<rparr>"

definition bob :: user where
  "bob = \<lparr>user_id = 2, email = ''bob@example.com'', full_name = ''Bob'',
     hashed_password = ''h2'', user_is_active = True, is_admin = False,
     referred_by = Some ''ABC12345''\<rparr>"

definition bob_use :: referral_use where
  "bob_use = \<lparr>ru_id = 1, referral_code_id = 1, referred_user_id = 2, first_order_id = None,
     referrer_discount_used = False, referee_discount_used = False, is_active = False\<rparr>"

definition shop :: db where
  "shop = \<lparr>users = [alice, bob], orders = [],
     referral_codes = [\<lparr>rc_id = 1, code = ''ABC12345'', rc_user_id = 1\<rparr>,
                       \<lparr>rc_id = 2, code = ''0b0b0b0b'', rc_user_id = 2\<rparr>],
     referral_uses = [bob_use]\<rparr>"

definition gold4 :: order_create where
  "gold4 = \<lparr>oc_product_type = Grillz, oc_material = ''gold'',
     oc_teeth_selection = Some [11, 12, 21, 22], oc_product_details = Some [],
     oc_shipping_full_name = ''Bob'', oc_shipping_address = ''1 Main St'',
     oc_shipping_city = ''Springfield'', oc_shipping_zip_code = ''12345'',
     use_referral_discount = Some True\<rparr>"

definition all_ok :: order_env where
  "all_ok = \<lparr>env_now = 100, env_uuid = ''order-uuid-1'', discount_commit_ok = True,
     order_commit_ok = True, checkout_session = Some (''cs_1'', ''https://checkout/cs_1''),
     intent_commit_ok = True\<rparr>"

definition bob_order :: order where
  "bob_order = \<lparr>order_id = 1, uuid = ''order-uuid-1'', order_user_id = 2,
     product_type = Grillz, material = ''gold'', teeth_selection = Some [11, 12, 21, 22],
     product_details = [(''discount_applied'', JNull)], total_price = 1196,
     shipping_full_name = ''Bob'', shipping_address = ''1 Main St'',
     shipping_city = ''Springfield'', shipping_zip_code = ''12345'',
     stripe_payment_intent = Some ''cs_1'', payment_status = ''pending'',
     created_at = 100, updated_at = 100\<rparr>"

definition paid_shop :: db where
  "paid_shop = shop\<lparr>orders := [bob_order\<lparr>payment_status := ''paid''\<rparr>]\<rparr>"

definition pending_shop :: db where
  "pending_shop = shop\<lparr>orders := [bob_order]\<rparr>"

definition wh_ok :: webhook_env where
  "wh_ok = \<lparr>wh_now = 200, activate_commit_ok = True, handler_commit_ok = True\<rparr>"

definition completed :: "string \<Rightarrow> construct_event" where
  "completed sid = Verified \<lparr>ev_type = ''checkout.session.completed'', ev_session_id = sid\<rparr>"

definition expired :: "string \<Rightarrow> construct_event" where
  "expired sid = Verified \<lparr>ev_type = ''checkout.session.expired'', ev_session_id = sid\<rparr>"

text \<open>
  A later state: Dave (user 4) registered with Bob's code and paid order 7, so Bob holds
  an unused referee discount and an active, unused referrer discount at once.
\<close>

definition dave_use :: referral_use where
  "dave_use = \<lparr>ru_id = 2, referral_code_id = 2, referred_user_id = 4, first_order_id = Some 7,
     referrer_discount_used = False, referee_discount_used = False, is_active = True\<rparr>"

definition both_shop :: db where
  "both_shop = shop\<lparr>referral_uses := [bob_use, dave_use]\<rparr>"

definition reg_ok :: register_env where
  "reg_ok = \<lparr>get_password_hash = (\<lambda>p. ''bcrypt:'' @ p),
     reg_uuid = ''c4401c40-0000-4000-8000-000000000000'',
     user_commit_ok = True, referral_commit_ok = True\<rparr>"

definition carol :: user_create where
  "carol = \<lparr>uc_email = ''carol@example.com'', uc_password = ''pw'', uc_full_name = ''Carol'',
     uc_referral_code = Some ''ABC12345''\<rparr>"

section \<open>Auxiliary definitions for the proofs\<close>

text \<open>
  The queries of \<^verbatim>\<open>activate_referral_bonus\<close> read the tables of users, referral codes
  and referral uses only. \<open>activation_target\<close> collects their outcome: an exception of
  one of the queries, nothing to activate, or the inactive referral use of the user. It
  is not part of the program; \<open>activate_referral_bonus_session\<close> below relates the two.
\<close>

definition activation_target :: "db \<Rightarrow> nat \<Rightarrow> exn + referral_use option" where
  "activation_target w uid =
     (case scalar_one_or_none (filter (\<lambda>u. user_id u = uid) (users w)) of
        Inl e \<Rightarrow> Inl e
      | Inr None \<Rightarrow> Inr None
      | Inr (Some usr) \<Rightarrow>
          (case referred_by usr of
             None \<Rightarrow> Inr None
           | Some rb \<Rightarrow>
               if rb = [] then Inr None
               else
                 (case scalar_one_or_none (filter (\<lambda>c. code c = rb) (referral_codes w)) of
                    Inl e \<Rightarrow> Inl e
                  | Inr None \<Rightarrow> Inr None
                  | Inr (Some rc) \<Rightarrow>
                      (case scalar_one_or_none
                              (filter (\<lambda>r. referral_code_id r = rc_id rc
                                           \<and> referred_user_id r = uid)
                                 (referral_uses w)) of
                         Inl e \<Rightarrow> Inl e
                       | Inr None \<Rightarrow> Inr None
                       | Inr (Some ru) \<Rightarrow> if is_active ru then Inr None else Inr (Some ru)))))"

text \<open>The database after \<^verbatim>\<open>handle_successful_payment\<close> ran on a fresh session.\<close>

definition completed_db :: "nat \<Rightarrow> bool \<Rightarrow> bool \<Rightarrow> db \<Rightarrow> string \<Rightarrow> db" where
  "completed_db now a c d sid =
     committed (fst (snd (handle_successful_payment now a c (open_session d) sid)))"

text \<open>
  The requests that write the database in the order and referral workflow (the routers
  of \<^verbatim>\<open>main.py\<close> dispatch them), each with what the environment decides during it,
  and the database after serving one.
\<close>

datatype request =
    Register register_env user_create
  | CreateOrder order_env order_create user
  | StripeWebhook "string option" construct_event webhook_env

fun serve :: "request \<Rightarrow> db \<Rightarrow> db" where
  "serve (Register env user_data) d = snd (register env user_data d)"
| "serve (CreateOrder env order_data current_user) d =
     snd (create_order env order_data current_user d)"
| "serve (StripeWebhook secret constructed env) d =
     fst (snd (stripe_webhook secret constructed env d))"

text \<open>
  Well-formed referral uses: the primary key is unique, and \<^verbatim>\<open>first_order_id\<close> is set
  only on active rows (rows are created inactive with no first order, and activation
  sets both). \<open>kept us us'\<close>: every row of \<open>us\<close> is still at its place in \<open>us'\<close>, and
  if it was active it is active with the same first order.
\<close>

definition referral_uses_wf :: "referral_use list \<Rightarrow> bool" where
  "referral_uses_wf us \<longleftrightarrow>
     distinct (map ru_id us) \<and> (\<forall>r \<in> set us. first_order_id r \<noteq> None \<longrightarrow> is_active r)"

definition kept :: "referral_use list \<Rightarrow> referral_use list \<Rightarrow> bool" where
  "kept us us' \<longleftrightarrow>
     length us \<le> length us' \<and>
     (\<forall>i < length us. ru_id (us' ! i) = ru_id (us ! i) \<and>
        (is_active (us ! i) \<longrightarrow>
           is_active (us' ! i) \<and> first_order_id (us' ! i) = first_order_id (us ! i)))"

section \<open>Unfolding the model on the example states\<close>

lemmas example_defs =
  alice_def bob_def bob_use_def shop_def gold4_def all_ok_def bob_order_def paid_shop_def
  pending_shop_def wh_ok_def
  completed_def expired_def reg_ok_def carol_def dave_use_def both_shop_def

lemmas model_defs =
  open_session_def commit_def rollback_def commit_or_rollback_def next_rowid_def
  GRILLZ_PRICES_def set_referee_discount_used_def set_referrer_discount_used_def
  apply_referral_discount_def check_available_discount_def calculate_price_def
  new_order_def set_stripe_payment_intent_def create_order_def set_active_def
  activation_error_def activate_referral_bonus_def set_payment_status_def
  order_not_found_def handle_successful_payment_def handle_failed_payment_def
  stripe_webhook_def register_def

section \<open>Facts about queries and row ids\<close>

lemma fold_max_ge: "x \<in> set ids \<Longrightarrow> x \<le> fold max ids (a::nat)"
proof (induction ids arbitrary: a)
  case Nil
  then show ?case by simp
next
  case (Cons y ys)
  have mono: "b \<le> fold max ys b" for b :: nat
    by (induction ys arbitrary: b) (auto intro: order_trans [OF max.cobounded2])
  from Cons show ?case
    by (auto intro: order_trans [OF _ mono])
qed

lemma next_rowid_fresh: "next_rowid ids \<notin> set ids"
proof
  assume "next_rowid ids \<in> set ids"
  then have "next_rowid ids \<le> fold max ids 0" by (rule fold_max_ge)
  then show False by (simp add: next_rowid_def)
qed

lemma filter_key_distinct:
  "distinct (map f xs) \<Longrightarrow> length (filter (\<lambda>x. f x = k) xs) \<le> 1"
proof (induction xs)
  case Nil
  then show ?case by simp
next
  case (Cons x xs)
  show ?case
  proof (cases "f x = k")
    case True
    have "f y \<noteq> k" if "y \<in> set xs" for y
    proof -
      from that have "f y \<in> f ` set xs" by (rule imageI)
      with Cons.prems True show ?thesis by auto
    qed
    then have "filter (\<lambda>x. f x = k) xs = []"
      by (simp add: filter_empty_conv)
    with True show ?thesis by simp
  next
    case False
    with Cons show ?thesis by simp
  qed
qed

lemma scalar_one_or_none_unique:
  "length xs \<le> 1 \<Longrightarrow> scalar_one_or_none xs = Inr (case xs of [] \<Rightarrow> None | x # ys \<Rightarrow> Some x)"
  by (cases xs rule: scalar_one_or_none.cases) simp_all

lemma scalar_one_or_none_Some [simp]: "scalar_one_or_none xs = Inr (Some x) \<longleftrightarrow> xs = [x]"
  by (cases xs rule: scalar_one_or_none.cases) auto

lemma scalar_one_or_none_None [simp]: "scalar_one_or_none xs = Inr None \<longleftrightarrow> xs = []"
  by (cases xs rule: scalar_one_or_none.cases) auto

lemma filter_singleton_mem: "filter P xs = [x] \<Longrightarrow> x \<in> set xs \<and> P x"
proof -
  assume "filter P xs = [x]"
  then have "x \<in> set (filter P xs)" by simp
  then show ?thesis by simp
qed

text \<open>
  What \<^verbatim>\<open>apply_referral_discount\<close> leaves behind, started on a fresh session: nothing
  pending, and the committed database is the old one or the old one with one flag set.
\<close>

lemma apply_referral_discount_result:
  assumes "apply_referral_discount ok (open_session d) uid t = ((tot, kind), s)"
  shows "working s = committed s \<and>
     (kind = None \<and> tot = t \<and> committed s = d \<or>
      kind = Some ''referee'' \<and> tot = t * 0.9 \<and>
        (\<exists>r \<in> set (referral_uses d). referred_user_id r = uid \<and> \<not> referee_discount_used r \<and>
           committed s = (if ok then set_referee_discount_used (ru_id r) d else d)) \<or>
      kind = Some ''referrer'' \<and> tot = t * 0.8 \<and>
        (\<exists>r \<in> set (referral_uses d). \<not> referrer_discount_used r \<and>
           committed s = (if ok then set_referrer_discount_used (ru_id r) d else d)))"
  using assms
  by (auto simp: apply_referral_discount_def open_session_def commit_or_rollback_def commit_def
        rollback_def
      split: sum.splits option.splits if_splits dest: filter_singleton_mem)

section \<open>Facts about referral activation and the completed handler\<close>

lemma activate_referral_bonus_session:
  "fst (activate_referral_bonus ok s uid oid) =
     (case activation_target (working s) uid of
        Inl e \<Rightarrow> rollback s
      | Inr None \<Rightarrow> s
      | Inr (Some r) \<Rightarrow>
          if ok then s\<lparr>committed := set_active (ru_id r) oid (working s),
                      working := set_active (ru_id r) oid (working s)\<rparr>
          else rollback s)"
  by (simp add: activate_referral_bonus_def activation_target_def commit_def rollback_def Let_def
      split: sum.splits option.splits)

lemma activation_target_mem:
  "activation_target w uid = Inr (Some r) \<Longrightarrow> r \<in> set (referral_uses w) \<and> \<not> is_active r"
  by (auto simp: activation_target_def split: sum.splits option.splits if_splits
      dest: filter_singleton_mem)

lemma activation_target_set_payment_status [simp]:
  "activation_target (set_payment_status oid st now d) uid = activation_target d uid"
  by (simp add: activation_target_def set_payment_status_def
      cong: sum.case_cong option.case_cong if_cong)

lemma completed_db_cases:
  "completed_db now a c d sid =
     (case scalar_one_or_none
             (filter (\<lambda>row. stripe_payment_intent row = Some sid) (orders d)) of
        Inl e \<Rightarrow> d
      | Inr None \<Rightarrow> d
      | Inr (Some ord) \<Rightarrow>
          if payment_status ord = ''paid'' then d
          else
            (case activation_target d (order_user_id ord) of
               Inl e \<Rightarrow> d
             | Inr None \<Rightarrow> if c then set_payment_status (order_id ord) ''paid'' now d else d
             | Inr (Some r) \<Rightarrow>
                 if a then set_active (ru_id r) (order_id ord)
                             (set_payment_status (order_id ord) ''paid'' now d)
                 else d))"
  by (simp add: completed_db_def handle_successful_payment_def Let_def split_beta
      activate_referral_bonus_session open_session_def commit_def rollback_def
      split: sum.splits option.splits)

lemma lookup_after_set_payment_status:
  assumes "filter (\<lambda>row. stripe_payment_intent row = Some sid) (orders d) = [ord]"
  shows "filter (\<lambda>row. stripe_payment_intent row = Some sid)
           (orders (set_payment_status (order_id ord) st now d))
         = [ord\<lparr>payment_status := st, updated_at := now\<rparr>]"
proof -
  let ?f = "\<lambda>row. if order_id row = order_id ord
                    then row\<lparr>payment_status := st, updated_at := now\<rparr> else row"
  let ?P = "\<lambda>row. stripe_payment_intent row = Some sid"
  have same: "?P \<circ> ?f = ?P"
    by (rule ext) simp
  have "filter ?P (map ?f (orders d)) = map ?f (filter (?P \<circ> ?f) (orders d))"
    by (rule filter_map)
  also have "\<dots> = map ?f (filter ?P (orders d))"
    by (simp only: same)
  also have "\<dots> = [ord\<lparr>payment_status := st, updated_at := now\<rparr>]"
    by (simp only: assms) simp
  finally show ?thesis by (simp add: set_payment_status_def)
qed

lemma completed_db_paid:
  assumes "filter (\<lambda>row. stripe_payment_intent row = Some sid) (orders d) = [ord]"
    and "payment_status ord = ''paid''"
  shows "completed_db now a c d sid = d"
  using assms by (simp add: completed_db_cases)

lemma completed_db_idem:
  "completed_db t2 a c (completed_db t1 True True d sid) sid = completed_db t1 True True d sid"
proof (cases "scalar_one_or_none
                (filter (\<lambda>row. stripe_payment_intent row = Some sid) (orders d))")
  case (Inl e)
  then have "completed_db t a' c' d sid = d" for t a' c'
    by (simp add: completed_db_cases)
  then show ?thesis by simp
next
  case (Inr found)
  show ?thesis
  proof (cases found)
    case None
    with Inr have "completed_db t a' c' d sid = d" for t a' c'
      by (simp add: completed_db_cases)
    then show ?thesis by simp
  next
    case (Some ord)
    with Inr have one: "filter (\<lambda>row. stripe_payment_intent row = Some sid) (orders d) = [ord]"
      by simp
    show ?thesis
    proof (cases "payment_status ord = ''paid''")
      case True
      with one have "completed_db t a' c' d sid = d" for t a' c'
        by (rule completed_db_paid)
      then show ?thesis by simp
    next
      case False
      let ?w = "set_payment_status (order_id ord) ''paid'' t1 d"
      let ?paid = "ord\<lparr>payment_status := ''paid'', updated_at := t1\<rparr>"
      have w: "filter (\<lambda>row. stripe_payment_intent row = Some sid) (orders ?w) = [?paid]"
        using one by (rule lookup_after_set_payment_status)
      show ?thesis
      proof (cases "activation_target d (order_user_id ord)")
        case (Inl e)
        with one False have "completed_db t a' c' d sid = d" for t a' c'
          by (simp add: completed_db_cases)
        then show ?thesis by simp
      next
        case (Inr target)
        show ?thesis
        proof (cases target)
          case None
          with Inr one False have "completed_db t1 True True d sid = ?w"
            by (simp add: completed_db_cases)
          moreover from w have "completed_db t2 a c ?w sid = ?w"
            by (rule completed_db_paid) simp
          ultimately show ?thesis by simp
        next
          case (Some r)
          let ?x = "set_active (ru_id r) (order_id ord) ?w"
          from Some Inr one False have "completed_db t1 True True d sid = ?x"
            by (simp add: completed_db_cases)
          moreover have "orders ?x = orders ?w"
            by (simp add: set_active_def)
          with w have "filter (\<lambda>row. stripe_payment_intent row = Some sid) (orders ?x) = [?paid]"
            by simp
          then have "completed_db t2 a c ?x sid = ?x"
            by (rule completed_db_paid) simp
          ultimately show ?thesis by simp
        qed
      qed
    qed
  qed
qed

lemma scalar_one_or_none_no_exn: "length xs \<le> 1 \<Longrightarrow> scalar_one_or_none xs \<noteq> Inl e"
  by (simp add: scalar_one_or_none_unique)

lemma activation_target_no_exn:
  assumes "distinct (map user_id (users d))" and "distinct (map code (referral_codes d))"
    and "distinct (map (\<lambda>r. (referral_code_id r, referred_user_id r)) (referral_uses d))"
  shows "activation_target d uid \<noteq> Inl e"
proof -
  have u: "scalar_one_or_none (filter (\<lambda>u. user_id u = uid) (users d)) \<noteq> Inl e'" for e'
    using filter_key_distinct [OF assms(1), of uid] by (rule scalar_one_or_none_no_exn)
  have c: "scalar_one_or_none (filter (\<lambda>c. code c = rb) (referral_codes d)) \<noteq> Inl e'" for e' rb
    using filter_key_distinct [OF assms(2), of rb] by (rule scalar_one_or_none_no_exn)
  have r: "scalar_one_or_none
             (filter (\<lambda>r. referral_code_id r = k \<and> referred_user_id r = uid) (referral_uses d))
           \<noteq> Inl e'" for e' k
    using filter_key_distinct [OF assms(3), of "(k, uid)"]
    by (intro scalar_one_or_none_no_exn) simp
  show ?thesis
    using u c r by (simp add: activation_target_def split: sum.splits option.splits)
qed

lemma stripe_webhook_completed:
  "fst (stripe_webhook secret (completed sid) env d)
     = (if secret = None \<or> secret = Some []
        then Inl (HTTPException 500 ''Webhook secret not configured'')
        else Inr [(''status'', ''success'')])"
  "fst (snd (stripe_webhook secret (completed sid) env d))
     = (if secret = None \<or> secret = Some [] then d
        else completed_db (wh_now env) (activate_commit_ok env) (handler_commit_ok env) d sid)"
  by (simp_all add: stripe_webhook_def completed_def completed_db_def Let_def split_beta)

lemma stripe_webhook_completed_paid:
  assumes "secret = Some k" and "k \<noteq> []"
    and "filter (\<lambda>row. stripe_payment_intent row = Some sid) (orders d) = [p]"
    and "payment_status p = ''paid''"
  shows "snd (snd (stripe_webhook secret (completed sid) env d)) =
           [(INFO, [Txt ''Verified Stripe webhook event: '', Txt ''checkout.session.completed'']),
            (INFO, [Txt ''Processing checkout session completed: '', Txt sid]),
            (INFO, [Txt ''Order '', Txt (uuid p), Txt '' already marked as paid''])]"
  using assms
  by (simp add: stripe_webhook_def completed_def handle_successful_payment_def open_session_def
        Let_def)

section \<open>Facts about the rows of referral uses\<close>

lemma kept_refl: "kept us us"
  by (simp add: kept_def)

lemma kept_trans: "kept us us' \<Longrightarrow> kept us' us'' \<Longrightarrow> kept us us''"
  unfolding kept_def by (metis (no_types, lifting) le_trans less_le_trans)

lemma kept_map_flags:
  assumes "\<And>r. ru_id (g r) = ru_id r" and "\<And>r. is_active (g r) = is_active r"
    and "\<And>r. first_order_id (g r) = first_order_id r"
  shows "kept us (map g us)" and "referral_uses_wf us \<Longrightarrow> referral_uses_wf (map g us)"
proof -
  show "kept us (map g us)"
    using assms by (simp add: kept_def)
  have "map ru_id (map g us) = map ru_id us"
    using assms(1) by simp
  then show "referral_uses_wf us \<Longrightarrow> referral_uses_wf (map g us)"
    using assms(2,3) by (simp add: referral_uses_wf_def del: map_map)
qed

lemma kept_activate:
  fixes oid :: nat
  assumes wf: "referral_uses_wf us" and mem: "r \<in> set us" and inactive: "\<not> is_active r"
  defines "g \<equiv> \<lambda>x. if ru_id x = ru_id r then x\<lparr>is_active := True, first_order_id := Some oid\<rparr>
                      else x"
  shows "kept us (map g us)" and "referral_uses_wf (map g us)"
proof -
  from wf have inj: "inj_on ru_id (set us)"
    by (simp add: referral_uses_wf_def distinct_map)
  have only: "x = r" if "x \<in> set us" "ru_id x = ru_id r" for x
    using inj that mem by (auto dest: inj_onD)
  show "kept us (map g us)"
    unfolding kept_def
  proof (intro conjI allI impI)
    show "length us \<le> length (map g us)" by simp
  next
    fix i assume i: "i < length us"
    then show "ru_id (map g us ! i) = ru_id (us ! i)"
      by (simp add: g_def)
    assume act: "is_active (us ! i)"
    from i have "us ! i \<in> set us" by simp
    with only act inactive have "ru_id (us ! i) \<noteq> ru_id r" by blast
    with i act show "is_active (map g us ! i)"
      and "first_order_id (map g us ! i) = first_order_id (us ! i)"
      by (simp_all add: g_def)
  qed
  have ids: "map ru_id (map g us) = map ru_id us"
    by (simp add: g_def comp_def if_distrib [of ru_id] cong: if_cong)
  from wf have "\<forall>x \<in> set us. first_order_id (g x) \<noteq> None \<longrightarrow> is_active (g x)"
    by (simp add: referral_uses_wf_def g_def)
  with wf ids show "referral_uses_wf (map g us)"
    by (simp add: referral_uses_wf_def del: map_map)
qed

lemma kept_append:
  assumes "ru_id x \<notin> set (map ru_id us)" and "first_order_id x = None"
  shows "kept us (us @ [x])" and "referral_uses_wf us \<Longrightarrow> referral_uses_wf (us @ [x])"
  using assms by (auto simp: kept_def referral_uses_wf_def nth_append)

section \<open>What each request does to the referral uses\<close>

lemma create_order_uses:
  "\<exists>g. (\<forall>r. ru_id (g r) = ru_id r \<and> is_active (g r) = is_active r \<and>
             first_order_id (g r) = first_order_id r) \<and>
       referral_uses (snd (create_order env od u d)) = map g (referral_uses d)"
proof -
  let ?P = "\<lambda>us. \<exists>g. (\<forall>r. ru_id (g r) = ru_id r \<and> is_active (g r) = is_active r \<and>
             first_order_id (g r) = first_order_id r) \<and> us = map g (referral_uses d)"
  have same: "?P (referral_uses d)"
    by (rule exI [of _ "\<lambda>r. r"]) simp
  show ?thesis
  proof (cases "calculate_price od")
    case (Inl f)
    with same show ?thesis by (simp add: create_order_def)
  next
    case (Inr base)
    define res where "res =
      (if use_referral_discount od = Some True
       then apply_referral_discount (discount_commit_ok env) (open_session d) (user_id u) base
       else ((base, None), open_session d))"
    obtain tot kind s where res: "res = ((tot, kind), s)"
      by (metis prod.collapse)
    have s: "working s = committed s \<and> ?P (referral_uses (committed s))"
    proof (cases "use_referral_discount od = Some True")
      case False
      with res same show ?thesis by (auto simp: res_def open_session_def)
    next
      case True
      with res have "apply_referral_discount (discount_commit_ok env) (open_session d)
          (user_id u) base = ((tot, kind), s)"
        by (simp add: res_def)
      note r = apply_referral_discount_result [OF this]
      then have w: "working s = committed s" by blast
      from r consider "committed s = d"
        | rid where "committed s = set_referee_discount_used rid d"
        | rid where "committed s = set_referrer_discount_used rid d"
        by (auto split: if_splits)
      then have "?P (referral_uses (committed s))"
      proof cases
        case 1
        with same show ?thesis by simp
      next
        case 2
        show ?thesis
          by (rule exI [of _ "\<lambda>r. if ru_id r = rid then r\<lparr>referee_discount_used := True\<rparr> else r"])
            (simp add: 2 set_referee_discount_used_def)
      next
        case 3
        show ?thesis
          by (rule exI [of _ "\<lambda>r. if ru_id r = rid then r\<lparr>referrer_discount_used := True\<rparr> else r"])
            (simp add: 3 set_referrer_discount_used_def)
      qed
      with w show ?thesis by blast
    qed
    have "referral_uses (snd (create_order env od u d)) = referral_uses (committed s)"
      using Inr res s
      by (simp add: create_order_def res_def [symmetric] commit_def Let_def
            set_stripe_payment_intent_def split: option.splits prod.splits)
    with s show ?thesis by simp
  qed
qed

lemma register_uses:
  "referral_uses (snd (register env user_data d)) = referral_uses d \<or>
   (\<exists>x. ru_id x = next_rowid (map ru_id (referral_uses d)) \<and> first_order_id x = None \<and>
        referral_uses (snd (register env user_data d)) = referral_uses d @ [x])"
  by (simp add: register_def open_session_def commit_def Let_def
      split: sum.splits option.splits)

lemma handle_failed_payment_uses:
  "referral_uses (committed (fst (snd (handle_failed_payment now c (open_session d) sid))))
     = referral_uses d"
  by (simp add: handle_failed_payment_def open_session_def commit_def Let_def
        set_payment_status_def split: sum.splits option.splits)

lemma completed_db_uses:
  "referral_uses (completed_db now a c d sid) = referral_uses d \<or>
   (\<exists>r oid. r \<in> set (referral_uses d) \<and> \<not> is_active r \<and>
      referral_uses (completed_db now a c d sid)
        = map (\<lambda>x. if ru_id x = ru_id r then x\<lparr>is_active := True, first_order_id := Some oid\<rparr>
                    else x) (referral_uses d))"
proof -
  have "referral_uses (set_payment_status oid st t d) = referral_uses d" for oid st t
    by (simp add: set_payment_status_def)
  moreover have "referral_uses (set_active rid oid (set_payment_status oid st t d))
      = map (\<lambda>x. if ru_id x = rid then x\<lparr>is_active := True, first_order_id := Some oid\<rparr> else x)
          (referral_uses d)" for rid oid st t
    by (simp add: set_active_def set_payment_status_def)
  ultimately show ?thesis
    by (auto simp: completed_db_cases split: sum.splits option.splits
        dest!: activation_target_mem)
qed

lemma stripe_webhook_uses:
  "referral_uses (fst (snd (stripe_webhook secret constructed env d))) = referral_uses d \<or>
   (\<exists>r oid. r \<in> set (referral_uses d) \<and> \<not> is_active r \<and>
      referral_uses (fst (snd (stripe_webhook secret constructed env d)))
        = map (\<lambda>x. if ru_id x = ru_id r then x\<lparr>is_active := True, first_order_id := Some oid\<rparr>
                    else x) (referral_uses d))"
proof (cases constructed)
  case (Raises e)
  then show ?thesis by (simp add: stripe_webhook_def)
next
  case (Verified ev)
  consider (completed) "ev_type ev = ''checkout.session.completed''"
    | (expired) "ev_type ev = ''checkout.session.expired''"
    | (other) "ev_type ev \<noteq> ''checkout.session.completed''"
        "ev_type ev \<noteq> ''checkout.session.expired''"
    by blast
  then show ?thesis
  proof cases
    case completed
    then have "constructed = completed (ev_session_id ev)"
      by (simp add: Verified completed_def)
    with completed_db_uses [of "wh_now env" "activate_commit_ok env" "handler_commit_ok env" d
        "ev_session_id ev"]
    show ?thesis
      by (simp add: stripe_webhook_completed(2))
  next
    case expired
    with Verified handle_failed_payment_uses [of "wh_now env" "handler_commit_ok env" d
        "ev_session_id ev"]
    show ?thesis
      by (simp add: stripe_webhook_def Let_def split_beta)
  next
    case other
    with Verified show ?thesis
      by (simp add: stripe_webhook_def Let_def)
  qed
qed

lemma serve_step:
  assumes "referral_uses_wf (referral_uses d)"
  shows "referral_uses_wf (referral_uses (serve rq d)) \<and>
         kept (referral_uses d) (referral_uses (serve rq d))"
proof (cases rq)
  case (Register env user_data)
  from register_uses [of env user_data d] show ?thesis
  proof
    assume "referral_uses (snd (register env user_data d)) = referral_uses d"
    with assms Register show ?thesis by (simp add: kept_refl)
  next
    assume "\<exists>x. ru_id x = next_rowid (map ru_id (referral_uses d)) \<and> first_order_id x = None \<and>
        referral_uses (snd (register env user_data d)) = referral_uses d @ [x]"
    then obtain x where x: "ru_id x = next_rowid (map ru_id (referral_uses d))"
      "first_order_id x = None"
      "referral_uses (snd (register env user_data d)) = referral_uses d @ [x]"
      by blast
    from x(1) have "ru_id x \<notin> set (map ru_id (referral_uses d))"
      by (simp only: next_rowid_fresh not_False_eq_True)
    from kept_append [OF this x(2)] assms x(3) Register show ?thesis by simp
  qed
next
  case (CreateOrder env od u)
  from create_order_uses [of env od u d] obtain g where
    g: "\<And>r. ru_id (g r) = ru_id r" "\<And>r. is_active (g r) = is_active r"
       "\<And>r. first_order_id (g r) = first_order_id r"
       "referral_uses (snd (create_order env od u d)) = map g (referral_uses d)"
    by blast
  from kept_map_flags [of g, OF g(1,2,3)] assms g(4) CreateOrder show ?thesis by simp
next
  case (StripeWebhook secret constructed env)
  from stripe_webhook_uses [of secret constructed env d] show ?thesis
  proof
    assume "referral_uses (fst (snd (stripe_webhook secret constructed env d))) = referral_uses d"
    with assms StripeWebhook show ?thesis by (simp add: kept_refl)
  next
    assume "\<exists>r oid. r \<in> set (referral_uses d) \<and> \<not> is_active r \<and>
      referral_uses (fst (snd (stripe_webhook secret constructed env d)))
        = map (\<lambda>x. if ru_id x = ru_id r then x\<lparr>is_active := True, first_order_id := Some oid\<rparr>
                    else x) (referral_uses d)"
    then obtain r oid where r: "r \<in> set (referral_uses d)" "\<not> is_active r"
      "referral_uses (fst (snd (stripe_webhook secret constructed env d)))
        = map (\<lambda>x. if ru_id x = ru_id r then x\<lparr>is_active := True, first_order_id := Some oid\<rparr>
                    else x) (referral_uses d)"
      by blast
    from kept_activate [OF assms r(1,2), of oid] r(3) StripeWebhook show ?thesis by simp
  qed
qed

lemma serve_all:
  "referral_uses_wf (referral_uses d) \<Longrightarrow>
   referral_uses_wf (referral_uses (fold serve rqs d)) \<and>
   kept (referral_uses d) (referral_uses (fold serve rqs d))"
proof (induction rqs arbitrary: d)
  case Nil
  then show ?case by (simp add: kept_refl)
next
  case (Cons rq rqs)
  from serve_step [OF Cons.prems, of rq]
  have wf: "referral_uses_wf (referral_uses (serve rq d))"
    and k: "kept (referral_uses d) (referral_uses (serve rq d))"
    by simp_all
  from Cons.IH [OF wf] k show ?case
    by (auto intro: kept_trans)
qed

section \<open>Payment reconciliation: an expired session after a completed one\<close>

text \<open>
  C1. For every paid order, a \<^verbatim>\<open>checkout.session.expired\<close> event for its checkout
  session should leave the order paid. \<^verbatim>\<open>handle_failed_payment\<close> does not look at the
  status it overwrites (\<^verbatim>\<open>handle_successful_payment\<close> does): at the state below, Bob's
  paid order is marked failed, and the endpoint acknowledges the event.
\<close>

theorem expired_overwrites_paid:
  "map payment_status (orders paid_shop) = [''paid''] \<and>
   stripe_webhook (Some ''whsec'') (expired ''cs_1'') wh_ok paid_shop =
     (Inr [(''status'', ''success'')],
      shop\<lparr>orders := [bob_order\<lparr>payment_status := ''failed'', updated_at := 200\<rparr>]\<rparr>,
      [(INFO, [Txt ''Verified Stripe webhook event: '', Txt ''checkout.session.expired'']),
       (INFO, [Txt ''Processing checkout session expired: '', Txt ''cs_1'']),
       (INFO, [Txt ''Order '', Txt ''order-uuid-1'', Txt '' marked as failed''])])"
  by (simp add: example_defs model_defs)

section \<open>The referrer discount and inactive referrals\<close>

text \<open>
  C2. Order creation should grant the 20% referrer discount only for a referral use that
  is active and whose referrer discount is unused. The query of
  \<^verbatim>\<open>apply_referral_discount\<close> has no \<^verbatim>\<open>is_active\<close> condition (the one of
  \<^verbatim>\<open>check_available_discount\<close> has): Alice, whose only referral is inactive, orders
  four gold teeth at 956.80 instead of 1196, and the flag is consumed.
\<close>

theorem inactive_referral_grants_referrer_discount:
  "map is_active (referral_uses shop) = [False] \<and>
   filter (\<lambda>r. referred_user_id r = user_id alice \<and> \<not> referee_discount_used r)
     (referral_uses shop) = [] \<and>
   (\<exists>resp d'. create_order all_ok gold4 alice shop = (Inr resp, d') \<and>
      resp_total_price resp = 956.8 \<and>
      map total_price (orders d') = [956.8] \<and>
      map product_details (orders d') = [[(''discount_applied'', JStr ''referrer'')]] \<and>
      map referrer_discount_used (referral_uses d') = [True] \<and>
      map is_active (referral_uses d') = [False])"
  by (simp add: example_defs model_defs)

text \<open>
  C10. The preview and the order-time application disagree: there is a state and a user
  with no unused referee discount, owning a referral code with a referral use that is
  inactive and whose referrer discount is unused, where \<^verbatim>\<open>check_available_discount\<close>
  reports no discount and \<^verbatim>\<open>apply_referral_discount\<close> takes 20% off any price.
\<close>

theorem preview_differs_from_application:
  "\<exists>d uid rc r.
     filter (\<lambda>r. referred_user_id r = uid \<and> \<not> referee_discount_used r) (referral_uses d) = [] \<and>
     rc \<in> set (referral_codes d) \<and> rc_user_id rc = uid \<and>
     r \<in> set (referral_uses d) \<and> referral_code_id r = rc_id rc \<and>
     \<not> referrer_discount_used r \<and> \<not> is_active r \<and>
     check_available_discount d uid = Inr (0, None) \<and>
     (\<forall>tot. fst (apply_referral_discount True (open_session d) uid tot)
              = (tot * 0.8, Some ''referrer''))"
proof -
  let ?rc = "\<lparr>rc_id = 1, code = ''ABC12345'', rc_user_id = 1\<rparr>"
  have "filter (\<lambda>r. referred_user_id r = 1 \<and> \<not> referee_discount_used r) (referral_uses shop) = [] \<and>
     ?rc \<in> set (referral_codes shop) \<and> rc_user_id ?rc = 1 \<and>
     bob_use \<in> set (referral_uses shop) \<and> referral_code_id bob_use = rc_id ?rc \<and>
     \<not> referrer_discount_used bob_use \<and> \<not> is_active bob_use \<and>
     check_available_discount shop 1 = Inr (0, None) \<and>
     (\<forall>tot. fst (apply_referral_discount True (open_session shop) 1 tot)
              = (tot * 0.8, Some ''referrer''))"
    by (simp add: example_defs model_defs)
  then show ?thesis by blast
qed

section \<open>Pricing of grillz orders\<close>

lemma create_order_rejects:
  "calculate_price od = Inl f \<Longrightarrow> create_order env od u d = (Inl f, d)"
  by (simp add: create_order_def)

text \<open>
  C5. For a grillz order: with a material of the price table at unit price \<open>p\<close> and a
  selection of \<open>n \<ge> 1\<close> teeth the base price is \<open>p \<times> n\<close>, and it is the price of the
  order that is stored when no discount is requested; a missing or empty teeth
  selection and a material outside the table are rejected with status 400 and the
  database is unchanged. Four gold teeth cost 1196, and 1076.40 for Bob, who holds an
  unused referee discount.
\<close>

theorem grillz_price:
  assumes "oc_product_type od = Grillz"
  shows
    "(GRILLZ_PRICES (oc_material od) = Some cfg \<and> oc_teeth_selection od = Some ts \<and> ts \<noteq> []
        \<longrightarrow> calculate_price od = Inr (real_of_int (price cfg) * real (length ts))) \<and>
     (GRILLZ_PRICES (oc_material od) = Some cfg \<and> oc_teeth_selection od = Some ts \<and> ts \<noteq> [] \<and>
      use_referral_discount od \<noteq> Some True \<and> oc_product_details od = Some pd \<and>
      order_commit_ok env \<and> checkout_session env = Some cs \<and> intent_commit_ok env
        \<longrightarrow> (\<exists>resp d'. create_order env od u d = (Inr resp, d') \<and>
              resp_total_price resp = real_of_int (price cfg) * real (length ts) \<and>
              length (orders d') = Suc (length (orders d)) \<and>
              total_price (last (orders d')) = real_of_int (price cfg) * real (length ts))) \<and>
     (oc_teeth_selection od = None \<or> oc_teeth_selection od = Some []
        \<longrightarrow> (\<exists>msg. create_order env od u d = (Inl (HTTPException 400 msg), d))) \<and>
     (GRILLZ_PRICES (oc_material od) = None
        \<longrightarrow> (\<exists>msg. create_order env od u d = (Inl (HTTPException 400 msg), d))) \<and>
     calculate_price gold4 = Inr 1196 \<and>
     (\<exists>resp d'. create_order all_ok gold4 bob shop = (Inr resp, d') \<and>
        resp_total_price resp = 1076.4 \<and> map total_price (orders d') = [1076.4])"
proof (intro conjI impI)
  assume h: "GRILLZ_PRICES (oc_material od) = Some cfg \<and> oc_teeth_selection od = Some ts \<and> ts \<noteq> []"
  with assms show "calculate_price od = Inr (real_of_int (price cfg) * real (length ts))"
    by (simp add: calculate_price_def)
next
  assume h: "GRILLZ_PRICES (oc_material od) = Some cfg \<and> oc_teeth_selection od = Some ts \<and> ts \<noteq> [] \<and>
      use_referral_discount od \<noteq> Some True \<and> oc_product_details od = Some pd \<and>
      order_commit_ok env \<and> checkout_session env = Some cs \<and> intent_commit_ok env"
  with assms have p: "calculate_price od = Inr (real_of_int (price cfg) * real (length ts))"
    by (simp add: calculate_price_def)
  obtain cid url where cs: "cs = (cid, url)" by (cases cs)
  from h p cs show "\<exists>resp d'. create_order env od u d = (Inr resp, d') \<and>
              resp_total_price resp = real_of_int (price cfg) * real (length ts) \<and>
              length (orders d') = Suc (length (orders d)) \<and>
              total_price (last (orders d')) = real_of_int (price cfg) * real (length ts)"
    by (simp add: create_order_def open_session_def commit_def new_order_def
          set_stripe_payment_intent_def last_map Let_def)
next
  assume "oc_teeth_selection od = None \<or> oc_teeth_selection od = Some []"
  with assms have "\<exists>msg. calculate_price od = Inl (HTTPException 400 msg)"
    by (auto simp: calculate_price_def split: option.splits)
  then show "\<exists>msg. create_order env od u d = (Inl (HTTPException 400 msg), d)"
    by (auto dest: create_order_rejects)
next
  assume "GRILLZ_PRICES (oc_material od) = None"
  with assms have "\<exists>msg. calculate_price od = Inl (HTTPException 400 msg)"
    by (simp add: calculate_price_def)
  then show "\<exists>msg. create_order env od u d = (Inl (HTTPException 400 msg), d)"
    by (auto dest: create_order_rejects)
next
  show "calculate_price gold4 = Inr 1196"
    by (simp add: example_defs model_defs)
next
  show "\<exists>resp d'. create_order all_ok gold4 bob shop = (Inr resp, d') \<and>
        resp_total_price resp = 1076.4 \<and> map total_price (orders d') = [1076.4]"
    by (simp add: example_defs model_defs)
qed

theorem grillz_price_witness:
  "oc_product_type gold4 = Grillz \<and>
   GRILLZ_PRICES ''gold'' = Some \<lparr>price = 299, name = ''18K Gold'',
     description = ''Premium 18K gold finish''\<rparr> \<and>
   calculate_price gold4 = Inr (299 * 4) \<and>
   (\<exists>resp d'. create_order all_ok (gold4\<lparr>use_referral_discount := Some False\<rparr>) bob shop
                 = (Inr resp, d') \<and>
      resp_total_price resp = 299 * 4 \<and> length (orders d') = Suc (length (orders shop)) \<and>
      total_price (last (orders d')) = 299 * 4) \<and>
   GRILLZ_PRICES ''platinum'' = None \<and>
   (\<exists>msg. create_order all_ok (gold4\<lparr>oc_teeth_selection := Some []\<rparr>) bob shop
            = (Inl (HTTPException 400 msg), shop)) \<and>
   (\<exists>msg. create_order all_ok (gold4\<lparr>oc_teeth_selection := None\<rparr>) bob shop
            = (Inl (HTTPException 400 msg), shop)) \<and>
   (\<exists>msg. create_order all_ok (gold4\<lparr>oc_material := ''platinum''\<rparr>) bob shop
            = (Inl (HTTPException 400 msg), shop))"
proof -
  let ?gold = "\<lparr>price = 299, name = ''18K Gold'', description = ''Premium 18K gold finish''\<rparr>"
  have g: "oc_product_type gold4 = Grillz" "GRILLZ_PRICES ''gold'' = Some ?gold"
    "GRILLZ_PRICES ''platinum'' = None"
    by (simp_all add: gold4_def GRILLZ_PRICES_def)
  have a: "oc_material gold4 = ''gold''" "oc_teeth_selection gold4 = Some [11, 12, 21, 22]"
    "oc_product_details gold4 = Some []"
    by (simp_all add: gold4_def)
  have e: "order_commit_ok all_ok" "checkout_session all_ok = Some (''cs_1'', ''https://checkout/cs_1'')"
    "intent_commit_ok all_ok"
    by (simp_all add: all_ok_def)
  note t1 = grillz_price [of gold4 ?gold "[11, 12, 21, 22]" "[]" all_ok
      "(''cs_1'', ''https://checkout/cs_1'')" bob shop]
  note t2 = grillz_price [of "gold4\<lparr>use_referral_discount := Some False\<rparr>" ?gold "[11, 12, 21, 22]" "[]"
      all_ok "(''cs_1'', ''https://checkout/cs_1'')" bob shop]
  note t3 = grillz_price [of "gold4\<lparr>oc_teeth_selection := Some []\<rparr>" ?gold "[]" "[]" all_ok
      "(''cs_1'', ''https://checkout/cs_1'')" bob shop]
  note t4 = grillz_price [of "gold4\<lparr>oc_teeth_selection := None\<rparr>" ?gold "[]" "[]" all_ok
      "(''cs_1'', ''https://checkout/cs_1'')" bob shop]
  note t5 = grillz_price [of "gold4\<lparr>oc_material := ''platinum''\<rparr>" ?gold "[]" "[]" all_ok
      "(''cs_1'', ''https://checkout/cs_1'')" bob shop]
  from g a e t1 have c1: "calculate_price gold4 = Inr (299 * 4)" by simp
  from g a e t2 have c2: "\<exists>resp d'. create_order all_ok (gold4\<lparr>use_referral_discount := Some False\<rparr>) bob shop
                 = (Inr resp, d') \<and>
      resp_total_price resp = 299 * 4 \<and> length (orders d') = Suc (length (orders shop)) \<and>
      total_price (last (orders d')) = 299 * 4" by simp
  from g t3 have c3: "\<exists>msg. create_order all_ok (gold4\<lparr>oc_teeth_selection := Some []\<rparr>) bob shop
            = (Inl (HTTPException 400 msg), shop)" by simp
  from g t4 have c4: "\<exists>msg. create_order all_ok (gold4\<lparr>oc_teeth_selection := None\<rparr>) bob shop
            = (Inl (HTTPException 400 msg), shop)" by simp
  from g a t5 have c5: "\<exists>msg. create_order all_ok (gold4\<lparr>oc_material := ''platinum''\<rparr>) bob shop
            = (Inl (HTTPException 400 msg), shop)" by simp
  from g c1 c2 c3 c4 c5 show ?thesis by simp
qed

section \<open>The webhook endpoint always acknowledges a verified event\<close>

text \<open>
  C9. With the webhook secret configured and the signature verified, the endpoint
  answers with the success acknowledgment whatever the event and whatever happens in
  the handlers (a failed commit, a query that raises). When the event's checkout
  session matches no order, the database is unchanged, and for the two handled event
  types the handler logs that the order was not found.
\<close>

theorem webhook_acknowledged:
  assumes "secret = Some k" and "k \<noteq> []"
  shows
    "fst (stripe_webhook secret (Verified ev) env d) = Inr [(''status'', ''success'')] \<and>
     (filter (\<lambda>row. stripe_payment_intent row = Some (ev_session_id ev)) (orders d) = []
        \<longrightarrow> fst (snd (stripe_webhook secret (Verified ev) env d)) = d \<and>
            (ev_type ev = ''checkout.session.completed'' \<or> ev_type ev = ''checkout.session.expired''
               \<longrightarrow> order_not_found (ev_session_id ev)
                     \<in> set (snd (snd (stripe_webhook secret (Verified ev) env d)))))"
proof (intro conjI impI)
  from assms show "fst (stripe_webhook secret (Verified ev) env d) = Inr [(''status'', ''success'')]"
    by (simp add: stripe_webhook_def Let_def split: prod.splits)
next
  assume none: "filter (\<lambda>row. stripe_payment_intent row = Some (ev_session_id ev)) (orders d) = []"
  have ok: "handle_successful_payment (wh_now env) (activate_commit_ok env) (handler_commit_ok env)
              (open_session d) (ev_session_id ev)
            = (None, open_session d, [order_not_found (ev_session_id ev)])"
    using none by (simp add: handle_successful_payment_def open_session_def)
  have failed: "handle_failed_payment (wh_now env) (handler_commit_ok env)
              (open_session d) (ev_session_id ev)
            = (None, open_session d, [order_not_found (ev_session_id ev)])"
    using none by (simp add: handle_failed_payment_def open_session_def)
  from assms ok failed show "fst (snd (stripe_webhook secret (Verified ev) env d)) = d"
    by (simp add: stripe_webhook_def Let_def open_session_def)
  assume "ev_type ev = ''checkout.session.completed'' \<or> ev_type ev = ''checkout.session.expired''"
  with assms ok failed
  show "order_not_found (ev_session_id ev)
          \<in> set (snd (snd (stripe_webhook secret (Verified ev) env d)))"
    by (auto simp: stripe_webhook_def Let_def)
qed

theorem webhook_acknowledged_witness:
  "stripe_webhook (Some ''whsec'') (completed ''cs_404'') wh_ok paid_shop =
     (Inr [(''status'', ''success'')], paid_shop,
      [(INFO, [Txt ''Verified Stripe webhook event: '', Txt ''checkout.session.completed'']),
       (INFO, [Txt ''Processing checkout session completed: '', Txt ''cs_404'']),
       (ERROR, [Txt ''Order not found for checkout session: '', Txt ''cs_404''])]) \<and>
   stripe_webhook (Some ''whsec'') (expired ''cs_1'') (wh_ok\<lparr>handler_commit_ok := False\<rparr>)
       paid_shop =
     (Inr [(''status'', ''success'')], paid_shop,
      [(INFO, [Txt ''Verified Stripe webhook event: '', Txt ''checkout.session.expired'']),
       (INFO, [Txt ''Processing checkout session expired: '', Txt ''cs_1'']),
       (ERROR, [Txt ''Error processing failed payment: '', Exc OperationalError])])"
proof -
  let ?ev = "\<lparr>ev_type = ''checkout.session.completed'', ev_session_id = ''cs_404''\<rparr>"
  have none: "filter (\<lambda>row. stripe_payment_intent row = Some (ev_session_id ?ev)) (orders paid_shop) = []"
    by (simp add: example_defs)
  note t = webhook_acknowledged [of "Some ''whsec''" "''whsec''" ?ev wh_ok paid_shop]
  from t none have "fst (stripe_webhook (Some ''whsec'') (Verified ?ev) wh_ok paid_shop)
        = Inr [(''status'', ''success'')] \<and>
      fst (snd (stripe_webhook (Some ''whsec'') (Verified ?ev) wh_ok paid_shop)) = paid_shop \<and>
      order_not_found ''cs_404''
        \<in> set (snd (snd (stripe_webhook (Some ''whsec'') (Verified ?ev) wh_ok paid_shop)))"
    by simp
  then show ?thesis
    by (simp add: example_defs model_defs)
qed

section \<open>Registration with a referral code\<close>

text \<open>
  C8. Registration with a (non-empty) referral code. If the code matches no row of
  \<^verbatim>\<open>referral_codes\<close>, the request is rejected with status 400 and the database is
  unchanged, so no user row is created (emails being unique, as the column is). If the
  code matches a row, the email is new and both commits succeed, the user is appended
  with \<^verbatim>\<open>referred_by\<close> set to the code, and one referral use is appended for the code
  and the new user; when every existing referral use refers to an existing user, it is
  the only referral use for that pair.
\<close>

theorem register_with_referral_code:
  assumes "uc_referral_code user_data = Some c" and "c \<noteq> []"
  shows
    "(filter (\<lambda>rc. code rc = c) (referral_codes d) = [] \<and> distinct (map email (users d))
        \<longrightarrow> (\<exists>msg. register env user_data d = (Inl (HTTPException 400 msg), d))) \<and>
     (filter (\<lambda>rc. code rc = c) (referral_codes d) = [] \<and>
      filter (\<lambda>u. email u = uc_email user_data) (users d) = []
        \<longrightarrow> register env user_data d = (Inl (HTTPException 400 ''Invalid referral code''), d)) \<and>
     (filter (\<lambda>rc. code rc = c) (referral_codes d) = [rc] \<and>
      filter (\<lambda>u. email u = uc_email user_data) (users d) = [] \<and>
      user_commit_ok env \<and> referral_commit_ok env
        \<longrightarrow> (\<exists>resp d' usr ru.
              register env user_data d = (Inr resp, d') \<and>
              users d' = users d @ [usr] \<and>
              email usr = uc_email user_data \<and> referred_by usr = Some c \<and>
              user_id usr \<notin> set (map user_id (users d)) \<and>
              referral_uses d' = referral_uses d @ [ru] \<and>
              referral_code_id ru = rc_id rc \<and> referred_user_id ru = user_id usr \<and>
              \<not> is_active ru \<and> first_order_id ru = None \<and>
              \<not> referee_discount_used ru \<and> \<not> referrer_discount_used ru \<and>
              (set (map referred_user_id (referral_uses d)) \<subseteq> set (map user_id (users d))
                 \<longrightarrow> filter (\<lambda>r. referral_code_id r = rc_id rc \<and> referred_user_id r = user_id usr)
                       (referral_uses d') = [ru])))"
proof (intro conjI impI)
  assume h: "filter (\<lambda>rc. code rc = c) (referral_codes d) = [] \<and> distinct (map email (users d))"
  then have "length (filter (\<lambda>u. email u = uc_email user_data) (users d)) \<le> 1"
    using filter_key_distinct [of email "users d" "uc_email user_data"] by simp
  then have "scalar_one_or_none (filter (\<lambda>u. email u = uc_email user_data) (users d))
      = Inr (case filter (\<lambda>u. email u = uc_email user_data) (users d) of
               [] \<Rightarrow> None | x # ys \<Rightarrow> Some x)"
    by (rule scalar_one_or_none_unique)
  with h assms show "\<exists>msg. register env user_data d = (Inl (HTTPException 400 msg), d)"
    by (simp add: register_def split: list.splits)
next
  assume "filter (\<lambda>rc. code rc = c) (referral_codes d) = [] \<and>
      filter (\<lambda>u. email u = uc_email user_data) (users d) = []"
  with assms show "register env user_data d = (Inl (HTTPException 400 ''Invalid referral code''), d)"
    by (simp add: register_def)
next
  assume h: "filter (\<lambda>rc. code rc = c) (referral_codes d) = [rc] \<and>
      filter (\<lambda>u. email u = uc_email user_data) (users d) = [] \<and>
      user_commit_ok env \<and> referral_commit_ok env"
  let ?uid = "next_rowid (map user_id (users d))"
  let ?usr = "\<lparr>user_id = ?uid, email = uc_email user_data, full_name = uc_full_name user_data,
      hashed_password = get_password_hash env (uc_password user_data),
      user_is_active = True, is_admin = False, referred_by = uc_referral_code user_data\<rparr>"
  let ?ru = "\<lparr>ru_id = next_rowid (map ru_id (referral_uses d)), referral_code_id = rc_id rc,
      referred_user_id = ?uid, first_order_id = None, referrer_discount_used = False,
      referee_discount_used = False, is_active = False\<rparr>"
  let ?new_rc = "\<lparr>rc_id = next_rowid (map rc_id (referral_codes d)),
      code = take 8 (reg_uuid env), rc_user_id = ?uid\<rparr>"
  let ?d' = "d\<lparr>users := users d @ [?usr], referral_codes := referral_codes d @ [?new_rc],
      referral_uses := referral_uses d @ [?ru]\<rparr>"
  let ?resp = "\<lparr>ur_email = uc_email user_data, ur_full_name = uc_full_name user_data,
      ur_is_admin = False\<rparr>"
  from h assms have run: "register env user_data d = (Inr ?resp, ?d')"
    by (simp add: register_def open_session_def commit_def Let_def)
  have fresh: "?uid \<notin> set (map user_id (users d))"
    by (rule next_rowid_fresh)
  have only: "filter (\<lambda>r. referral_code_id r = rc_id rc \<and> referred_user_id r = ?uid)
                (referral_uses ?d') = [?ru]"
    if "set (map referred_user_id (referral_uses d)) \<subseteq> set (map user_id (users d))"
  proof -
    have "referred_user_id r \<noteq> ?uid" if "r \<in> set (referral_uses d)" for r
    proof -
      from that have "referred_user_id r \<in> set (map referred_user_id (referral_uses d))"
        by simp
      with \<open>set (map referred_user_id (referral_uses d)) \<subseteq> set (map user_id (users d))\<close>
      have "referred_user_id r \<in> set (map user_id (users d))" by blast
      with fresh show ?thesis by metis
    qed
    then have "filter (\<lambda>r. referral_code_id r = rc_id rc \<and> referred_user_id r = ?uid)
                 (referral_uses d) = []"
      by (simp add: filter_empty_conv)
    then show ?thesis by simp
  qed
  show "\<exists>resp d' usr ru.
              register env user_data d = (Inr resp, d') \<and>
              users d' = users d @ [usr] \<and>
              email usr = uc_email user_data \<and> referred_by usr = Some c \<and>
              user_id usr \<notin> set (map user_id (users d)) \<and>
              referral_uses d' = referral_uses d @ [ru] \<and>
              referral_code_id ru = rc_id rc \<and> referred_user_id ru = user_id usr \<and>
              \<not> is_active ru \<and> first_order_id ru = None \<and>
              \<not> referee_discount_used ru \<and> \<not> referrer_discount_used ru \<and>
              (set (map referred_user_id (referral_uses d)) \<subseteq> set (map user_id (users d))
                 \<longrightarrow> filter (\<lambda>r. referral_code_id r = rc_id rc \<and> referred_user_id r = user_id usr)
                       (referral_uses d') = [ru])"
    apply (rule exI [of _ ?resp], rule exI [of _ ?d'], rule exI [of _ ?usr], rule exI [of _ ?ru])
    using run fresh only assms by simp
qed

theorem register_with_referral_code_witness:
  "register reg_ok (carol\<lparr>uc_referral_code := Some ''ZZZ99999''\<rparr>) shop
     = (Inl (HTTPException 400 ''Invalid referral code''), shop) \<and>
   (\<exists>resp d'. register reg_ok carol shop = (Inr resp, d') \<and>
      map user_id (users d') = [1, 2, 3] \<and>
      map referred_by (users d') = [None, Some ''ABC12345'', Some ''ABC12345''] \<and>
      map (\<lambda>r. (referral_code_id r, referred_user_id r)) (referral_uses d') = [(1, 2), (1, 3)])"
proof -
  let ?rc = "\<lparr>rc_id = 1, code = ''ABC12345'', rc_user_id = 1\<rparr>"
  have bad: "uc_referral_code (carol\<lparr>uc_referral_code := Some ''ZZZ99999''\<rparr>) = Some ''ZZZ99999''"
    "''ZZZ99999'' \<noteq> []"
    "filter (\<lambda>rc. code rc = ''ZZZ99999'') (referral_codes shop) = []"
    "filter (\<lambda>u. email u = uc_email (carol\<lparr>uc_referral_code := Some ''ZZZ99999''\<rparr>)) (users shop) = []"
    "distinct (map email (users shop))"
    by (simp_all add: example_defs)
  have good: "uc_referral_code carol = Some ''ABC12345''" "''ABC12345'' \<noteq> []"
    "filter (\<lambda>rc. code rc = ''ABC12345'') (referral_codes shop) = [?rc]"
    "filter (\<lambda>u. email u = uc_email carol) (users shop) = []"
    "user_commit_ok reg_ok" "referral_commit_ok reg_ok"
    "set (map referred_user_id (referral_uses shop)) \<subseteq> set (map user_id (users shop))"
    by (simp_all add: example_defs)
  note t1 = register_with_referral_code
      [of "carol\<lparr>uc_referral_code := Some ''ZZZ99999''\<rparr>" "''ZZZ99999''" shop reg_ok ?rc]
  note t2 = register_with_referral_code [of carol "''ABC12345''" shop reg_ok ?rc]
  from bad t1 have c1: "register reg_ok (carol\<lparr>uc_referral_code := Some ''ZZZ99999''\<rparr>) shop
     = (Inl (HTTPException 400 ''Invalid referral code''), shop)"
    by blast
  from good t2 obtain resp d' usr ru where
    r: "register reg_ok carol shop = (Inr resp, d')" "users d' = users shop @ [usr]"
       "referred_by usr = Some ''ABC12345''"
       "referral_uses d' = referral_uses shop @ [ru]" "referral_code_id ru = rc_id ?rc"
       "referred_user_id ru = user_id usr"
    by blast
  have "map user_id (users (snd (register reg_ok carol shop))) = [1, 2, 3] \<and>
      map referred_by (users (snd (register reg_ok carol shop)))
        = [None, Some ''ABC12345'', Some ''ABC12345''] \<and>
      map (\<lambda>r. (referral_code_id r, referred_user_id r))
        (referral_uses (snd (register reg_ok carol shop))) = [(1, 2), (1, 3)]"
    by (simp add: example_defs model_defs)
  with r(1) c1 show ?thesis by simp
qed

section \<open>Discount precedence\<close>

text \<open>
  With an unused referee discount (the one row the referee query returns),
  \<^verbatim>\<open>apply_referral_discount\<close> returns 90% of the price and the kind referee whether its
  commit succeeds or not; the flag of that row is committed only when the commit
  succeeds. Every call leaves the price as it is or multiplies it once, by 0.9 or by 0.8.
\<close>

lemma referee_discount_any_commit:
  assumes "filter (\<lambda>r. referred_user_id r = uid \<and> \<not> referee_discount_used r) (referral_uses d)
             = [r]"
  shows "fst (apply_referral_discount ok (open_session d) uid tot) = (tot * 0.9, Some ''referee'')"
    and "committed (snd (apply_referral_discount ok (open_session d) uid tot))
           = (if ok then set_referee_discount_used (ru_id r) d else d)"
  using assms
  by (simp_all add: apply_referral_discount_def open_session_def commit_or_rollback_def
        commit_def rollback_def)

lemma apply_referral_discount_kinds:
  "fst (apply_referral_discount ok s uid tot)
     \<in> {(tot, None), (tot * 0.9, Some ''referee''), (tot * 0.8, Some ''referrer'')}"
  by (simp add: apply_referral_discount_def split: sum.splits option.splits)

text \<open>
  C6. A user with an unused referee discount and an active, unused referrer discount
  should get the 10% referee discount on an order, never the 20% one, with exactly one
  flag, the referee one, marked used. \<^verbatim>\<open>apply_referral_discount\<close> sets the price and the
  kind before its commit; when the commit fails, its \<^verbatim>\<open>except\<close> clause rolls the flag
  back and still returns the discounted price and the kind. Bob holds both discounts.
  When the flag commit fails and the rest of the request succeeds, his order is created
  at 1076.40 with the kind referee, and no flag is marked in the database. When the flag
  commit succeeds, the same request marks Bob's referee flag and no other.
\<close>

theorem referee_discount_without_flag:
  "filter (\<lambda>r. referred_user_id r = user_id bob \<and> \<not> referee_discount_used r)
     (referral_uses both_shop) = [bob_use] \<and>
   filter (\<lambda>r. referral_code_id r = 2 \<and> \<not> referrer_discount_used r \<and> is_active r)
     (referral_uses both_shop) = [dave_use] \<and>
   (\<exists>resp d'. create_order (all_ok\<lparr>discount_commit_ok := False\<rparr>) gold4 bob both_shop
                  = (Inr resp, d') \<and>
      resp_total_price resp = 1076.4 \<and>
      map total_price (orders d') = [1076.4] \<and>
      map product_details (orders d') = [[(''discount_applied'', JStr ''referee'')]] \<and>
      referral_uses d' = referral_uses both_shop \<and>
      map referee_discount_used (referral_uses d') = [False, False] \<and>
      map referrer_discount_used (referral_uses d') = [False, False]) \<and>
   (\<exists>resp d'. create_order all_ok gold4 bob both_shop = (Inr resp, d') \<and>
      resp_total_price resp = 1076.4 \<and>
      map referee_discount_used (referral_uses d') = [True, False] \<and>
      map referrer_discount_used (referral_uses d') = [False, False])"
  by (simp add: example_defs model_defs)

section \<open>The discount flag and the order are committed separately\<close>

text \<open>
  C3, as stated: a request that consumes a discount flag and fails before the order
  is persisted leaves the flag unused. At this input it does not: Bob's referee flag is
  committed by \<^verbatim>\<open>apply_referral_discount\<close>, the insert of the order fails, the request
  fails, no order exists, and the flag is used.
\<close>

theorem discount_flag_not_rolled_back:
  "map referee_discount_used (referral_uses shop) = [False] \<and>
   create_order (all_ok\<lparr>order_commit_ok := False\<rparr>) gold4 bob shop
     = (Inl (Unhandled OperationalError),
        shop\<lparr>referral_uses := [bob_use\<lparr>referee_discount_used := True\<rparr>]\<rparr>) \<and>
   orders (snd (create_order (all_ok\<lparr>order_commit_ok := False\<rparr>) gold4 bob shop)) = [] \<and>
   map referee_discount_used
     (referral_uses (snd (create_order (all_ok\<lparr>order_commit_ok := False\<rparr>) gold4 bob shop)))
     = [True]"
  by (simp add: example_defs model_defs)

text \<open>
  C3, amended. \<^verbatim>\<open>apply_referral_discount\<close> commits the flag it sets before the order is
  inserted. For a request with a discount requested whose flag commit succeeds, let
  \<open>s\<close> be the session after \<^verbatim>\<open>apply_referral_discount\<close>: its committed database is the
  old one with the flag of the discount that was granted set. If the order cannot be
  built (\<^verbatim>\<open>product_details\<close> is null) or its insert fails, the request fails and the
  database is the committed one of \<open>s\<close>: no order, the flag used. If the insert
  succeeds and the checkout call fails, the request fails and the database is the
  committed one of \<open>s\<close> with the pending order, which has no checkout session.
\<close>

theorem discount_flag_survives_failed_order:
  assumes "calculate_price od = Inr base" and "use_referral_discount od = Some True"
    and "discount_commit_ok env"
    and "apply_referral_discount True (open_session d) (user_id u) base = ((tot, kind), s)"
  shows
    "(kind = Some ''referee'' \<longrightarrow>
        (\<exists>r \<in> set (referral_uses d). referred_user_id r = user_id u \<and> \<not> referee_discount_used r \<and>
           committed s = set_referee_discount_used (ru_id r) d)) \<and>
     (kind = Some ''referrer'' \<longrightarrow>
        (\<exists>r \<in> set (referral_uses d). \<not> referrer_discount_used r \<and>
           committed s = set_referrer_discount_used (ru_id r) d)) \<and>
     orders (committed s) = orders d \<and>
     (oc_product_details od = None
        \<longrightarrow> create_order env od u d = (Inl (Unhandled TypeError), committed s)) \<and>
     (oc_product_details od = Some pd \<and> \<not> order_commit_ok env
        \<longrightarrow> create_order env od u d = (Inl (Unhandled OperationalError), committed s)) \<and>
     (oc_product_details od = Some pd \<and> order_commit_ok env \<and> checkout_session env = None
        \<longrightarrow> create_order env od u d
            = (Inl (Unhandled StripeError),
               (committed s)\<lparr>orders := orders d @
                  [new_order env od (next_rowid (map order_id (orders d))) (user_id u) pd
                     kind tot]\<rparr>) \<and>
            stripe_payment_intent
              (new_order env od (next_rowid (map order_id (orders d))) (user_id u) pd kind tot)
              = None)"
proof -
  note res = apply_referral_discount_result [OF assms(4)]
  from res have w: "working s = committed s" by blast
  from res have o: "orders (committed s) = orders d"
    by (auto simp: set_referee_discount_used_def set_referrer_discount_used_def)
  from res have ee: "kind = Some ''referee'' \<longrightarrow>
        (\<exists>r \<in> set (referral_uses d). referred_user_id r = user_id u \<and> \<not> referee_discount_used r \<and>
           committed s = set_referee_discount_used (ru_id r) d)"
    by auto
  from res have er: "kind = Some ''referrer'' \<longrightarrow>
        (\<exists>r \<in> set (referral_uses d). \<not> referrer_discount_used r \<and>
           committed s = set_referrer_discount_used (ru_id r) d)"
    by auto
  from assms have c1: "oc_product_details od = None
        \<longrightarrow> create_order env od u d = (Inl (Unhandled TypeError), committed s)"
    by (simp add: create_order_def)
  from assms have c2: "oc_product_details od = Some pd \<and> \<not> order_commit_ok env
        \<longrightarrow> create_order env od u d = (Inl (Unhandled OperationalError), committed s)"
    by (simp add: create_order_def commit_def Let_def)
  from assms w o have c3: "oc_product_details od = Some pd \<and> order_commit_ok env \<and>
        checkout_session env = None
        \<longrightarrow> create_order env od u d
            = (Inl (Unhandled StripeError),
               (committed s)\<lparr>orders := orders d @
                  [new_order env od (next_rowid (map order_id (orders d))) (user_id u) pd
                     kind tot]\<rparr>) \<and>
            stripe_payment_intent
              (new_order env od (next_rowid (map order_id (orders d))) (user_id u) pd kind tot)
              = None"
    by (simp add: create_order_def commit_def Let_def new_order_def)
  from ee er o c1 c2 c3 show ?thesis by blast
qed

theorem discount_flag_survives_failed_order_witness:
  "apply_referral_discount True (open_session shop) (user_id bob) 1196
     = ((1076.4, Some ''referee''),
        open_session (shop\<lparr>referral_uses := [bob_use\<lparr>referee_discount_used := True\<rparr>]\<rparr>)) \<and>
   create_order (all_ok\<lparr>order_commit_ok := False\<rparr>) gold4 bob shop
     = (Inl (Unhandled OperationalError),
        shop\<lparr>referral_uses := [bob_use\<lparr>referee_discount_used := True\<rparr>]\<rparr>) \<and>
   create_order all_ok (gold4\<lparr>oc_product_details := None\<rparr>) bob shop
     = (Inl (Unhandled TypeError),
        shop\<lparr>referral_uses := [bob_use\<lparr>referee_discount_used := True\<rparr>]\<rparr>) \<and>
   (\<exists>ord. create_order (all_ok\<lparr>checkout_session := None\<rparr>) gold4 bob shop
      = (Inl (Unhandled StripeError),
         shop\<lparr>referral_uses := [bob_use\<lparr>referee_discount_used := True\<rparr>], orders := [ord]\<rparr>) \<and>
      stripe_payment_intent ord = None)"
proof -
  let ?d1 = "shop\<lparr>referral_uses := [bob_use\<lparr>referee_discount_used := True\<rparr>]\<rparr>"
  have a: "apply_referral_discount True (open_session shop) (user_id bob) 1196
     = ((1076.4, Some ''referee''), open_session ?d1)"
    by (simp add: example_defs model_defs)
  have p: "calculate_price gold4 = Inr 1196"
    "calculate_price (gold4\<lparr>oc_product_details := None\<rparr>) = Inr 1196"
    by (simp_all add: gold4_def calculate_price_def GRILLZ_PRICES_def)
  have q: "use_referral_discount gold4 = Some True" "oc_product_details gold4 = Some []"
    "discount_commit_ok all_ok" "order_commit_ok all_ok" "orders shop = []"
    by (simp_all add: example_defs)
  note t1 = discount_flag_survives_failed_order
      [of gold4 1196 "all_ok\<lparr>order_commit_ok := False\<rparr>" shop bob "1076.4" "Some ''referee''"
          "open_session ?d1" "[]"]
  note t2 = discount_flag_survives_failed_order
      [of "gold4\<lparr>oc_product_details := None\<rparr>" 1196 all_ok shop bob "1076.4" "Some ''referee''"
          "open_session ?d1" "[]"]
  note t3 = discount_flag_survives_failed_order
      [of gold4 1196 "all_ok\<lparr>checkout_session := None\<rparr>" shop bob "1076.4" "Some ''referee''"
          "open_session ?d1" "[]"]
  from t1 a p q have c1: "create_order (all_ok\<lparr>order_commit_ok := False\<rparr>) gold4 bob shop
     = (Inl (Unhandled OperationalError), ?d1)"
    by (simp add: open_session_def)
  from t2 a p q have c2: "create_order all_ok (gold4\<lparr>oc_product_details := None\<rparr>) bob shop
     = (Inl (Unhandled TypeError), ?d1)"
    by (simp add: open_session_def)
  let ?ord = "new_order (all_ok\<lparr>checkout_session := None\<rparr>) gold4 (next_rowid (map order_id (orders shop)))
      (user_id bob) [] (Some ''referee'') 1076.4"
  from t3 a p q have "create_order (all_ok\<lparr>checkout_session := None\<rparr>) gold4 bob shop
      = (Inl (Unhandled StripeError), ?d1\<lparr>orders := [?ord]\<rparr>) \<and> stripe_payment_intent ?ord = None"
    by (simp add: open_session_def)
  then have c3: "\<exists>ord. create_order (all_ok\<lparr>checkout_session := None\<rparr>) gold4 bob shop
      = (Inl (Unhandled StripeError), ?d1\<lparr>orders := [ord]\<rparr>) \<and> stripe_payment_intent ord = None"
    by (rule exI)
  from a c1 c2 c3 show ?thesis by blast
qed

section \<open>Delivering a completed event twice\<close>

text \<open>
  C4. Deliver the same \<^verbatim>\<open>checkout.session.completed\<close> event twice, the commits of the
  first delivery succeeding. Whatever the clock and the commit outcomes of the second
  delivery, it leaves the database as the first delivery left it, orders and referral
  uses alike, and gives the same response. When the session has one order and that
  order is not paid (the keys of users, referral codes and referral uses being
  unique), the first delivery marks it paid, and the second delivery logs that the
  order is already marked as paid and nothing else after the two records of the
  endpoint.
\<close>

theorem completed_delivered_twice:
  "let first = stripe_webhook secret (completed sid)
                 \<lparr>wh_now = t1, activate_commit_ok = True, handler_commit_ok = True\<rparr> d;
       d1 = fst (snd first);
       second = stripe_webhook secret (completed sid) env2 d1
   in fst (snd second) = d1 \<and> fst second = fst first \<and>
      (secret = Some k \<and> k \<noteq> [] \<and>
       filter (\<lambda>row. stripe_payment_intent row = Some sid) (orders d) = [ord] \<and>
       payment_status ord \<noteq> ''paid'' \<and>
       distinct (map user_id (users d)) \<and> distinct (map code (referral_codes d)) \<and>
       distinct (map (\<lambda>r. (referral_code_id r, referred_user_id r)) (referral_uses d))
         \<longrightarrow> orders d1 = orders (set_payment_status (order_id ord) ''paid'' t1 d) \<and>
             snd (snd second) =
               [(INFO, [Txt ''Verified Stripe webhook event: '',
                        Txt ''checkout.session.completed'']),
                (INFO, [Txt ''Processing checkout session completed: '', Txt sid]),
                (INFO, [Txt ''Order '', Txt (uuid ord), Txt '' already marked as paid''])])"
proof -
  let ?env1 = "\<lparr>wh_now = t1, activate_commit_ok = True, handler_commit_ok = True\<rparr>"
  let ?first = "stripe_webhook secret (completed sid) ?env1 d"
  let ?d1 = "fst (snd ?first)"
  let ?second = "stripe_webhook secret (completed sid) env2 ?d1"
  have same_db: "fst (snd ?second) = ?d1"
    by (simp add: stripe_webhook_completed completed_db_idem)
  have same_resp: "fst ?second = fst ?first"
    by (simp add: stripe_webhook_completed)
  have marked: "orders ?d1 = orders (set_payment_status (order_id ord) ''paid'' t1 d) \<and>
      snd (snd ?second) =
               [(INFO, [Txt ''Verified Stripe webhook event: '',
                        Txt ''checkout.session.completed'']),
                (INFO, [Txt ''Processing checkout session completed: '', Txt sid]),
                (INFO, [Txt ''Order '', Txt (uuid ord), Txt '' already marked as paid''])]"
    if h: "secret = Some k \<and> k \<noteq> [] \<and>
       filter (\<lambda>row. stripe_payment_intent row = Some sid) (orders d) = [ord] \<and>
       payment_status ord \<noteq> ''paid'' \<and>
       distinct (map user_id (users d)) \<and> distinct (map code (referral_codes d)) \<and>
       distinct (map (\<lambda>r. (referral_code_id r, referred_user_id r)) (referral_uses d))"
  proof -
    let ?w = "set_payment_status (order_id ord) ''paid'' t1 d"
    let ?paid = "ord\<lparr>payment_status := ''paid'', updated_at := t1\<rparr>"
    from h have one: "filter (\<lambda>row. stripe_payment_intent row = Some sid) (orders d) = [ord]"
      and pending: "payment_status ord \<noteq> ''paid''"
      by simp_all
    from h have d1: "?d1 = completed_db t1 True True d sid"
      by (simp add: stripe_webhook_completed)
    from h have "activation_target d (order_user_id ord) \<noteq> Inl e" for e
      by (intro activation_target_no_exn) simp_all
    with one pending have o: "orders (completed_db t1 True True d sid) = orders ?w"
      by (simp add: completed_db_cases set_active_def split: sum.splits option.splits)
    from one have "filter (\<lambda>row. stripe_payment_intent row = Some sid) (orders ?w) = [?paid]"
      by (rule lookup_after_set_payment_status)
    with o d1 have found: "filter (\<lambda>row. stripe_payment_intent row = Some sid) (orders ?d1) = [?paid]"
      by simp
    from h have k: "secret = Some k" "k \<noteq> []" by simp_all
    have "snd (snd ?second) =
               [(INFO, [Txt ''Verified Stripe webhook event: '',
                        Txt ''checkout.session.completed'']),
                (INFO, [Txt ''Processing checkout session completed: '', Txt sid]),
                (INFO, [Txt ''Order '', Txt (uuid ?paid), Txt '' already marked as paid''])]"
      by (rule stripe_webhook_completed_paid [OF k found]) simp
    then have "snd (snd ?second) =
               [(INFO, [Txt ''Verified Stripe webhook event: '',
                        Txt ''checkout.session.completed'']),
                (INFO, [Txt ''Processing checkout session completed: '', Txt sid]),
                (INFO, [Txt ''Order '', Txt (uuid ord), Txt '' already marked as paid''])]"
      by simp
    with o d1 show ?thesis by simp
  qed
  from same_db same_resp marked show ?thesis
    by (simp add: Let_def)
qed

theorem completed_delivered_twice_witness:
  "fst (snd (stripe_webhook (Some ''whsec'') (completed ''cs_1'') wh_ok pending_shop))
     = shop\<lparr>orders := [bob_order\<lparr>payment_status := ''paid'', updated_at := 200\<rparr>],
            referral_uses := [bob_use\<lparr>is_active := True, first_order_id := Some 1\<rparr>]\<rparr> \<and>
   stripe_webhook (Some ''whsec'') (completed ''cs_1'') (wh_ok\<lparr>wh_now := 300\<rparr>)
       (fst (snd (stripe_webhook (Some ''whsec'') (completed ''cs_1'') wh_ok pending_shop)))
     = (Inr [(''status'', ''success'')],
        shop\<lparr>orders := [bob_order\<lparr>payment_status := ''paid'', updated_at := 200\<rparr>],
             referral_uses := [bob_use\<lparr>is_active := True, first_order_id := Some 1\<rparr>]\<rparr>,
        [(INFO, [Txt ''Verified Stripe webhook event: '', Txt ''checkout.session.completed'']),
         (INFO, [Txt ''Processing checkout session completed: '', Txt ''cs_1'']),
         (INFO, [Txt ''Order '', Txt ''order-uuid-1'', Txt '' already marked as paid''])])"
proof -
  let ?first = "stripe_webhook (Some ''whsec'') (completed ''cs_1'') wh_ok pending_shop"
  let ?second = "stripe_webhook (Some ''whsec'') (completed ''cs_1'') (wh_ok\<lparr>wh_now := 300\<rparr>)
      (fst (snd ?first))"
  have hyp: "''whsec'' \<noteq> []"
    "filter (\<lambda>row. stripe_payment_intent row = Some ''cs_1'') (orders pending_shop) = [bob_order]"
    "payment_status bob_order \<noteq> ''paid''"
    "distinct (map user_id (users pending_shop))"
    "distinct (map code (referral_codes pending_shop))"
    "distinct (map (\<lambda>r. (referral_code_id r, referred_user_id r)) (referral_uses pending_shop))"
    by (simp_all add: example_defs)
  have env: "wh_ok = \<lparr>wh_now = 200, activate_commit_ok = True, handler_commit_ok = True\<rparr>"
    by (simp add: wh_ok_def)
  note t = completed_delivered_twice
      [of "Some ''whsec''" "''cs_1''" 200 pending_shop "wh_ok\<lparr>wh_now := 300\<rparr>" "''whsec''" bob_order]
  from t hyp env have twice: "fst (snd ?second) = fst (snd ?first) \<and> fst ?second = fst ?first \<and>
      snd (snd ?second) =
        [(INFO, [Txt ''Verified Stripe webhook event: '', Txt ''checkout.session.completed'']),
         (INFO, [Txt ''Processing checkout session completed: '', Txt ''cs_1'']),
         (INFO, [Txt ''Order '', Txt (uuid bob_order), Txt '' already marked as paid''])]"
    by (simp add: Let_def)
  have first: "?first =
      (Inr [(''status'', ''success'')],
       shop\<lparr>orders := [bob_order\<lparr>payment_status := ''paid'', updated_at := 200\<rparr>],
            referral_uses := [bob_use\<lparr>is_active := True, first_order_id := Some 1\<rparr>]\<rparr>,
       snd (snd ?first))"
    by (simp add: example_defs model_defs)
  have u: "uuid bob_order = ''order-uuid-1''"
    by (simp add: bob_order_def)
  from twice first u show ?thesis
    by (metis fst_conv snd_conv prod.collapse)
qed

section \<open>Referral activation is permanent\<close>

text \<open>
  C7. Start from a database whose referral uses are well-formed and serve any
  sequence of registration, order-creation and webhook requests, with any outcome of
  the commits, the checkout calls and the signature checks. Every referral use stays
  at its place with its key; one that is active stays active; one whose
  \<^verbatim>\<open>first_order_id\<close> is set keeps that value; and the referral uses stay well-formed.
\<close>

theorem activation_permanent:
  assumes "referral_uses_wf (referral_uses d)" and "i < length (referral_uses d)"
  shows
    "let d' = fold serve rqs d; r = referral_uses d ! i; r' = referral_uses d' ! i
     in referral_uses_wf (referral_uses d') \<and> i < length (referral_uses d') \<and>
        ru_id r' = ru_id r \<and>
        (is_active r \<longrightarrow> is_active r') \<and>
        (first_order_id r \<noteq> None \<longrightarrow> first_order_id r' = first_order_id r)"
proof -
  let ?d' = "fold serve rqs d"
  from serve_all [OF assms(1), of rqs]
  have wf': "referral_uses_wf (referral_uses ?d')"
    and k: "kept (referral_uses d) (referral_uses ?d')"
    by simp_all
  from k assms(2) have len: "i < length (referral_uses ?d')"
    and key: "ru_id (referral_uses ?d' ! i) = ru_id (referral_uses d ! i)"
    and act: "is_active (referral_uses d ! i) \<longrightarrow>
        is_active (referral_uses ?d' ! i) \<and>
        first_order_id (referral_uses ?d' ! i) = first_order_id (referral_uses d ! i)"
    by (simp_all add: kept_def)
  from assms have "first_order_id (referral_uses d ! i) \<noteq> None
      \<longrightarrow> is_active (referral_uses d ! i)"
    by (simp add: referral_uses_wf_def)
  with act have first: "first_order_id (referral_uses d ! i) \<noteq> None \<longrightarrow>
      first_order_id (referral_uses ?d' ! i) = first_order_id (referral_uses d ! i)"
    by blast
  from wf' len key act first show ?thesis
    by (simp add: Let_def)
qed

theorem activation_permanent_witness:
  "referral_uses_wf (referral_uses both_shop) \<and>
   referral_uses both_shop ! 1 = dave_use \<and> is_active dave_use \<and>
   first_order_id dave_use = Some 7 \<and>
   is_active (referral_uses
     (fold serve
        [CreateOrder all_ok gold4 bob,
         StripeWebhook (Some ''whsec'') (completed ''cs_1'') wh_ok,
         StripeWebhook (Some ''whsec'') (expired ''cs_1'') wh_ok,
         Register reg_ok carol] both_shop) ! 1) \<and>
   first_order_id (referral_uses
     (fold serve
        [CreateOrder all_ok gold4 bob,
         StripeWebhook (Some ''whsec'') (completed ''cs_1'') wh_ok,
         StripeWebhook (Some ''whsec'') (expired ''cs_1'') wh_ok,
         Register reg_ok carol] both_shop) ! 1) = Some 7"
proof -
  let ?rqs = "[CreateOrder all_ok gold4 bob,
         StripeWebhook (Some ''whsec'') (completed ''cs_1'') wh_ok,
         StripeWebhook (Some ''whsec'') (expired ''cs_1'') wh_ok,
         Register reg_ok carol]"
  have wf: "referral_uses_wf (referral_uses both_shop)"
    and i: "1 < length (referral_uses both_shop)"
    and r: "referral_uses both_shop ! 1 = dave_use" "is_active dave_use"
      "first_order_id dave_use = Some 7"
    by (simp_all add: referral_uses_wf_def example_defs)
  from activation_permanent [OF wf i, of ?rqs] r
  have "is_active (referral_uses (fold serve ?rqs both_shop) ! 1) \<and>
      first_order_id (referral_uses (fold serve ?rqs both_shop) ! 1) = Some 7"
    by (simp add: Let_def)
  with wf r show ?thesis by blast
qed

end
